theory Spec2Isabelle
  imports Complex_Main
begin

section \<open>Values shared by the two detectors\<close>

text \<open>
  Tensors are nested lists of reals, outermost dimension first. Floating-point
  arithmetic is idealised to the reals throughout: the development is about which
  quantities the detectors compute, not about rounding.
\<close>

type_synonym tensor1 = "real list"
type_synonym tensor2 = "real list list"
type_synonym tensor3 = "real list list list"

datatype py_error =
    TypeError | IndexError | AttributeError | AssertionError | RuntimeError
  | FileNotFoundError

text \<open>
  A data sample of the framework: \<open>sample_texts\<close> is its \<open>texts\<close> attribute
  (\<open>None\<close> when the object has no such attribute, so \<open>hasattr\<close> is false),
  \<open>pred_instances\<close> the prediction that \<open>add_pred_to_datasample\<close> attaches.
\<close>

record 'r data_sample =
  sample_texts :: "string list option"
  pred_instances :: "'r option"

text \<open>
  What a caller can pass as \<open>batch_data_samples\<close>: \<open>None\<close>, a \<open>dict\<close> (an
  association list read with \<open>map_of\<close>), a \<open>list\<close> of samples, or any other object.
\<close>

datatype 'r batch_data_samples =
    BNone
  | BDict "(string \<times> string list list) list"
  | BList "'r data_sample list"
  | BOther

subsection \<open>The collaborators the detectors call into\<close>

text \<open>
  The backbone, the neck and the head belong to the framework. They are parameters of
  the model: \<open>forward\<close> is the joint call \<open>self.backbone(batch_inputs, texts)\<close>,
  \<open>neck\<close> takes the text features when the neck is multi-modal, \<open>head_predict\<close>
  receives the value of \<open>bbox_head.num_classes\<close> at the time of the call.
\<close>

record ('i, 'f) backbone =
  forward_text :: "string list list \<Rightarrow> tensor3"
  forward_image :: "'i \<Rightarrow> 'f"
  forward :: "'i \<Rightarrow> string list list \<Rightarrow> 'f \<times> tensor3"

record ('f, 'r) framework =
  neck :: "'f \<Rightarrow> tensor3 option \<Rightarrow> 'f"
  head_predict :: "nat \<Rightarrow> 'f \<Rightarrow> tensor3 \<Rightarrow> 'r batch_data_samples \<Rightarrow> bool \<Rightarrow> 'r list"
  add_pred_to_datasample :: "'r batch_data_samples \<Rightarrow> 'r list \<Rightarrow> 'r batch_data_samples"

text \<open>
  The calls a detector makes to its backbone, in order. The source keeps no such
  record; it is the call-count instrumentation of the text encoder.
\<close>

datatype backbone_call =
    CallForwardText "string list list"
  | CallForwardImage
  | CallForward "string list list"

section \<open>The text-driven detector\<close>

text \<open>
  The attributes of \<open>YOLOWorldDetector\<close>. \<open>texts\<close> and \<open>text_feats\<close> exist only
  after \<open>reparameterize\<close>: \<open>None\<close> is the missing attribute.
  \<open>bbox_head_num_classes\<close> is the field \<open>self.bbox_head.num_classes\<close>.
\<close>

record detector =
  mm_neck :: bool
  with_neck :: bool
  num_train_classes :: nat
  num_test_classes :: nat
  texts :: "string list list option"
  text_feats :: "tensor3 option"
  bbox_head_num_classes :: nat
  calls :: "backbone_call list"

definition reparameterize ::
  "('i, 'f) backbone \<Rightarrow> detector \<Rightarrow> string list list \<Rightarrow> detector" where
  "reparameterize bb d ts =
     d\<lparr>texts := Some ts,
       text_feats := Some (forward_text bb ts),
       calls := calls d @ [CallForwardText ts]\<rparr>"

text \<open>The tests of the \<open>elif\<close> chain of \<open>extract_feat\<close>.\<close>

definition dict_with_texts :: "'r batch_data_samples \<Rightarrow> bool" where
  "dict_with_texts bds =
     (case bds of BDict kv \<Rightarrow> map_of kv ''texts'' \<noteq> None | _ \<Rightarrow> False)"

text \<open>
  \<open>isinstance(batch_data_samples, list) and hasattr(batch_data_samples[0], 'texts')\<close>:
  the index raises on an empty list.
\<close>

definition list_with_texts :: "'r batch_data_samples \<Rightarrow> py_error + bool" where
  "list_with_texts bds =
     (case bds of
        BList [] \<Rightarrow> Inl IndexError
      | BList (s # _) \<Rightarrow> Inr (sample_texts s \<noteq> None)
      | _ \<Rightarrow> Inr False)"

text \<open>\<open>[data_sample.texts for data_sample in batch_data_samples]\<close>\<close>

fun gather_texts :: "'r data_sample list \<Rightarrow> py_error + string list list" where
  "gather_texts [] = Inr []"
| "gather_texts (s # ss) =
     (case sample_texts s of
        None \<Rightarrow> Inl AttributeError
      | Some t \<Rightarrow>
          (case gather_texts ss of Inl e \<Rightarrow> Inl e | Inr ts \<Rightarrow> Inr (t # ts)))"

definition cached :: "detector \<Rightarrow> py_error + string list list \<times> tensor3 option" where
  "cached d =
     (case texts d of
        None \<Rightarrow> Inl AttributeError
      | Some ts \<Rightarrow>
          (case text_feats d of
             None \<Rightarrow> Inl AttributeError
           | Some tf \<Rightarrow> Inr (ts, Some tf)))"

text \<open>
  Lines 79 to 91 of \<open>extract_feat\<close>: the pair \<open>(texts, txt_feats)\<close> the chain
  leaves behind, \<open>txt_feats\<close> being \<open>None\<close> when the texts are still to be encoded.
\<close>

definition text_source ::
  "detector \<Rightarrow> 'r batch_data_samples \<Rightarrow> py_error + string list list \<times> tensor3 option" where
  "text_source d bds =
     (if bds = BNone then cached d
      else if dict_with_texts bds then
        (case bds of BDict kv \<Rightarrow> Inr (the (map_of kv ''texts''), None) | _ \<Rightarrow> Inl TypeError)
      else
        (case list_with_texts bds of
           Inl e \<Rightarrow> Inl e
         | Inr True \<Rightarrow>
             (case bds of
                BList ss \<Rightarrow>
                  (case gather_texts ss of Inl e \<Rightarrow> Inl e | Inr ts \<Rightarrow> Inr (ts, None))
              | _ \<Rightarrow> Inl TypeError)
         | Inr False \<Rightarrow>
             if text_feats d \<noteq> None then cached d
             else Inl TypeError))"

text \<open>Lines 97 to 101: the neck, when there is one, with or without the text features.\<close>

definition apply_neck :: "('f, 'r) framework \<Rightarrow> detector \<Rightarrow> 'f \<Rightarrow> tensor3 \<Rightarrow> 'f" where
  "apply_neck fw d img_feats txt_feats =
     (if with_neck d then
        (if mm_neck d then neck fw img_feats (Some txt_feats)
         else neck fw img_feats None)
      else img_feats)"

text \<open>
  \<open>extract_feat\<close>: with text features in hand only \<open>forward_image\<close> is called,
  otherwise the joint call of the backbone; every call is appended to \<open>calls\<close>.
\<close>

definition extract_feat ::
  "('i, 'f) backbone \<Rightarrow> ('f, 'r) framework \<Rightarrow> detector \<Rightarrow> 'i \<Rightarrow> 'r batch_data_samples
     \<Rightarrow> py_error + detector \<times> 'f \<times> tensor3" where
  "extract_feat bb fw d batch_inputs bds =
     (case text_source d bds of
        Inl e \<Rightarrow> Inl e
      | Inr (ts, Some txt_feats) \<Rightarrow>
          Inr (d\<lparr>calls := calls d @ [CallForwardImage]\<rparr>,
               apply_neck fw d (forward_image bb batch_inputs) txt_feats,
               txt_feats)
      | Inr (ts, None) \<Rightarrow>
          (case forward bb batch_inputs ts of
             (img_feats, txt_feats) \<Rightarrow>
               Inr (d\<lparr>calls := calls d @ [CallForward ts]\<rparr>,
                    apply_neck fw d img_feats txt_feats,
                    txt_feats)))"

text \<open>
  \<open>predict\<close>: \<open>txt_feats[0].shape[0]\<close> is the length of the first element of the
  text features, and the index raises when the batch dimension is empty.
\<close>

definition predict ::
  "('i, 'f) backbone \<Rightarrow> ('f, 'r) framework \<Rightarrow> detector \<Rightarrow> 'i \<Rightarrow> 'r batch_data_samples
     \<Rightarrow> bool \<Rightarrow> py_error + detector \<times> 'r batch_data_samples" where
  "predict bb fw d batch_inputs bds rescale =
     (case extract_feat bb fw d batch_inputs bds of
        Inl e \<Rightarrow> Inl e
      | Inr (d1, img_feats, txt_feats) \<Rightarrow>
          (case txt_feats of
             [] \<Rightarrow> Inl IndexError
           | t0 # _ \<Rightarrow>
               let d2 = d1\<lparr>bbox_head_num_classes := length t0\<rparr>;
                   results_list =
                     head_predict fw (bbox_head_num_classes d2) img_feats txt_feats bds rescale
               in Inr (d2, add_pred_to_datasample fw bds results_list)))"


text \<open>
  The resolution of the text source as the specification words it: no samples, then a
  mapping with a \<open>texts\<close> key, then a sequence whose elements all expose \<open>texts\<close>,
  then the cached embeddings, and a type error when none of the four applies.
\<close>

datatype text_choice = UseCached | UseTexts "string list list"

definition has_texts :: "'r data_sample \<Rightarrow> bool" where
  "has_texts s = (sample_texts s \<noteq> None)"

definition spec_text_source ::
  "detector \<Rightarrow> 'r batch_data_samples \<Rightarrow> py_error + text_choice" where
  "spec_text_source d bds =
     (case bds of
        BNone \<Rightarrow> Inr UseCached
      | BDict kv \<Rightarrow>
          (case map_of kv ''texts'' of
             Some ts \<Rightarrow> Inr (UseTexts ts)
           | None \<Rightarrow> if text_feats d \<noteq> None then Inr UseCached else Inl TypeError)
      | BList ss \<Rightarrow>
          if list_all has_texts ss then Inr (UseTexts (map (the \<circ> sample_texts) ss))
          else if text_feats d \<noteq> None then Inr UseCached
          else Inl TypeError
      | BOther \<Rightarrow> if text_feats d \<noteq> None then Inr UseCached else Inl TypeError)"

section \<open>The class-embedding query\<close>

subsection \<open>The tensor operations it uses\<close>

text \<open>
  The operations of the tensor library, on tensors of the shapes the source's comments
  give. \<open>stack\<close> refuses an empty list of tensors; \<open>max_dim0\<close> refuses an empty
  class dimension.
\<close>

definition sigmoid :: "real \<Rightarrow> real" where
  "sigmoid x = 1 / (1 + exp (- x))"

definition stack :: "tensor2 list \<Rightarrow> py_error + tensor3" where
  "stack ts = (if ts = [] then Inl RuntimeError else Inr ts)"

text \<open>\<open>t.permute(2, 0, 1)\<close>: the entry at \<open>[k][i][j]\<close> of the result is \<open>t[i][j][k]\<close>.\<close>

definition permute_201 :: "tensor3 \<Rightarrow> tensor3" where
  "permute_201 t =
     map (\<lambda>k. map (\<lambda>i. map (\<lambda>j. t ! i ! j ! k) [0..<length (hd t)]) [0..<length t])
       [0..<length (hd (hd t))]"

text \<open>\<open>t.permute(1, 0)\<close>\<close>

definition permute_10 :: "tensor2 \<Rightarrow> tensor2" where
  "permute_10 t = map (\<lambda>j. map (\<lambda>i. t ! i ! j) [0..<length t]) [0..<length (hd t)]"

definition add1 :: "tensor1 \<Rightarrow> tensor1 \<Rightarrow> tensor1" where
  "add1 xs ys = map2 (+) xs ys"

definition add2 :: "tensor2 \<Rightarrow> tensor2 \<Rightarrow> tensor2" where
  "add2 xs ys = map2 add1 xs ys"

text \<open>\<open>t.mean(dim=0)\<close> of a non-empty stack: the slices are added up and divided by their number.\<close>

definition mean_dim0 :: "tensor3 \<Rightarrow> tensor2" where
  "mean_dim0 t = map (map (\<lambda>x. x / real (length t))) (foldl add2 (hd t) (tl t))"

text \<open>\<open>t.sum(dim=1)\<close>: in every slice of the first dimension the rows are added up.\<close>

definition sum_dim1 :: "tensor3 \<Rightarrow> tensor2" where
  "sum_dim1 t = map (\<lambda>rows. foldl add1 (hd rows) (tl rows)) t"

text \<open>
  \<open>stacked * scale[..., None]\<close>: every row \<open>stacked[v][h]\<close> is multiplied by the
  weight \<open>scale[v][h]\<close>.
\<close>

definition mul_last :: "tensor3 \<Rightarrow> tensor2 \<Rightarrow> tensor3" where
  "mul_last stacked scale =
     map2 (\<lambda>st ws. map2 (\<lambda>row w. map (\<lambda>x. x * w) row) st ws) stacked scale"

text \<open>
  \<open>torch.max(t, dim=0)\<close>: down every column, the largest value and the first index
  that holds it.
\<close>

definition max_step :: "real \<times> nat \<Rightarrow> real \<times> nat \<Rightarrow> real \<times> nat" where
  "max_step best cur = (if fst best < fst cur then cur else best)"

definition max_index :: "real list \<Rightarrow> real \<times> nat" where
  "max_index col = foldl max_step (hd col, 0) (zip (tl col) [1..<length col])"

definition max_dim0 :: "tensor2 \<Rightarrow> py_error + tensor1 \<times> nat list" where
  "max_dim0 t =
     (if t = [] then Inl IndexError
      else
        let cols = permute_10 t
        in Inr (map (fst \<circ> max_index) cols, map (snd \<circ> max_index) cols))"

subsection \<open>The routine\<close>

text \<open>
  The elements of a Python list given as \<open>texts\<close>, and the two forms of the
  argument: a list, or a tensor of embeddings (one row per class).
\<close>

datatype py_value = PStr string | PInt int

fun is_str :: "py_value \<Rightarrow> bool" where
  "is_str (PStr _) = True"
| "is_str (PInt _) = False"

datatype texts_arg = TextList "py_value list" | TextTensor tensor2

text \<open>
  A contrastive head of \<open>bbox_head.head_module.cls_contrasts\<close>, with the two
  similarity routines \<open>pre_normalized\<close> chooses between. The result is the map of raw
  logits, one row per class and one entry per location.
\<close>

record 'e contrast_head =
  forward_no_normalization :: "'e \<Rightarrow> tensor3 \<Rightarrow> tensor2"
  forward_flattened :: "'e \<Rightarrow> tensor3 \<Rightarrow> tensor2"

text \<open>
  Lines 112 to 116, \<open>txts\<close> being the argument \<open>texts\<close>. The assertion (taken as
  enabled) looks at \<open>texts[0]\<close> only, and the index raises on an empty list. \<open>encode\<close> is \<open>self.backbone.forward_text\<close> on the list as it stands;
  a tensor is reshaped to one embedding per class, which the tensor library refuses
  for embeddings of width zero.
\<close>

definition query_txt_feats ::
  "(py_value list list \<Rightarrow> tensor3) \<Rightarrow> texts_arg \<Rightarrow> py_error + tensor3" where
  "query_txt_feats encode txts =
     (case txts of
        TextList [] \<Rightarrow> Inl IndexError
      | TextList (t # ts) \<Rightarrow>
          if is_str t then Inr (encode [t # ts]) else Inl AssertionError
      | TextTensor e \<Rightarrow>
          if list_ex (\<lambda>row. row = []) e then Inl RuntimeError
          else Inr (map (\<lambda>row. [row]) e))"

text \<open>
  Lines 117 to 125: the raw logit map of one head, then one map of sigmoid logits per
  head, in the order of the heads.
\<close>

definition cls_logit_of :: "'e contrast_head \<Rightarrow> bool \<Rightarrow> 'e \<Rightarrow> tensor3 \<Rightarrow> tensor2" where
  "cls_logit_of cls_contrast pre_normalized cls_embed txt_feats =
     (if pre_normalized
      then forward_no_normalization cls_contrast cls_embed txt_feats
      else forward_flattened cls_contrast cls_embed txt_feats)"

definition head_logits ::
  "'e contrast_head list \<Rightarrow> bool \<Rightarrow> 'e \<Rightarrow> tensor3 \<Rightarrow> tensor2 list" where
  "head_logits cls_contrasts pre_normalized cls_embed txt_feats =
     map (\<lambda>cls_contrast.
            map (map sigmoid) (cls_logit_of cls_contrast pre_normalized cls_embed txt_feats))
       cls_contrasts"

text \<open>A tensor of \<open>m\<close> rows with \<open>n\<close> entries each.\<close>

definition has_shape :: "nat \<Rightarrow> nat \<Rightarrow> tensor2 \<Rightarrow> bool" where
  "has_shape m n t = (length t = m \<and> list_all (\<lambda>row. length row = n) t)"

text \<open>
  Line 135: the rows of the mask are divided by their sum plus \<open>1e-12\<close>, the others
  are left as they are.
\<close>

definition renormalize :: "bool list \<Rightarrow> tensor2 \<Rightarrow> tensor2" where
  "renormalize supervised_mask scale =
     map2 (\<lambda>m row. if m then map (\<lambda>w. w / (sum_list row + 1 / 10 ^ 12)) row else row)
       supervised_mask scale"

text \<open>
  Lines 131 to 140. \<open>scale_logits[:, -1]\<close> is the last entry of every row,
  \<open>scale_logits[:, :-1]\<close> every row without it. The source writes the renormalised
  rows back into the caller's tensor; the model returns the combined map only.
\<close>

definition combine :: "tensor2 list \<Rightarrow> tensor2 option \<Rightarrow> py_error + tensor2" where
  "combine cls_logits scale_logits =
     (case scale_logits of
        Some sl \<Rightarrow>
          if list_ex (\<lambda>row. row = []) sl then Inl IndexError
          else
            let supervised_mask = map (\<lambda>row. last row < 1 / 2) sl;
                sl1 = map butlast sl
            in (case stack cls_logits of
                  Inl e \<Rightarrow> Inl e
                | Inr st \<Rightarrow>
                    let stacked_cls_logits = permute_201 st;
                        sl2 = renormalize supervised_mask sl1
                    in Inr (permute_10 (sum_dim1 (mul_last stacked_cls_logits sl2))))
      | None \<Rightarrow>
          (case stack cls_logits of
             Inl e \<Rightarrow> Inl e
           | Inr st \<Rightarrow> Inr (mean_dim0 st)))"

text \<open>
  The mixing weight of head \<open>h\<close> at location \<open>v\<close> as the specification words it:
  the last channel is the uncertainty; below \<open>0.5\<close> the weights of the location are
  divided by their sum plus the epsilon, otherwise they are taken as they are.
\<close>

definition spec_mix_weight :: "tensor2 \<Rightarrow> nat \<Rightarrow> nat \<Rightarrow> real" where
  "spec_mix_weight sl v h =
     (if last (sl ! v) < 1 / 2
      then sl ! v ! h / ((\<Sum>k<length (sl ! v) - 1. sl ! v ! k) + 1 / 10 ^ 12)
      else sl ! v ! h)"

text \<open>
  Where the reals and the floating-point numbers part: a supervised row whose weights
  sum to exactly \<open>-1e-12\<close> is divided by zero. The statements about the weighted
  combination are for weights without such a row.
\<close>

definition nonzero_denominators :: "tensor2 \<Rightarrow> bool" where
  "nonzero_denominators sl =
     list_all (\<lambda>row. \<not> last row < 1 / 2 \<or> sum_list (butlast row) + 1 / 10 ^ 12 \<noteq> 0) sl"

definition query_cls_embed ::
  "(py_value list list \<Rightarrow> tensor3) \<Rightarrow> 'e contrast_head list \<Rightarrow> texts_arg \<Rightarrow> 'e
     \<Rightarrow> tensor2 option \<Rightarrow> bool \<Rightarrow> bool \<Rightarrow> py_error + tensor1 \<times> nat list \<times> tensor2" where
  "query_cls_embed encode cls_contrasts txts cls_embed scale_logits consider_uncertainty
       pre_normalized =
     (case query_txt_feats encode txts of
        Inl e \<Rightarrow> Inl e
      | Inr txt_feats \<Rightarrow>
          (case combine (head_logits cls_contrasts pre_normalized cls_embed txt_feats)
                  scale_logits of
             Inl e \<Rightarrow> Inl e
           | Inr cls_logit \<Rightarrow>
               (case max_dim0 cls_logit of
                  Inl e \<Rightarrow> Inl e
                | Inr (scores, labels) \<Rightarrow> Inr (scores, labels, cls_logit))))"

section \<open>The prompt-driven detector\<close>

subsection \<open>The layers of the adapter\<close>

text \<open>
  \<open>nn.Linear\<close>: \<open>weight\<close> has \<open>out_features\<close> rows of \<open>in_features\<close> entries, and
  the layer maps \<open>x\<close> to \<open>weight x + bias\<close>.
\<close>

record linear =
  in_features :: nat
  out_features :: nat
  weight :: tensor2
  bias :: tensor1

definition dot :: "tensor1 \<Rightarrow> tensor1 \<Rightarrow> real" where
  "dot xs ys = sum_list (map2 (*) xs ys)"

definition linear_forward :: "linear \<Rightarrow> tensor1 \<Rightarrow> tensor1" where
  "linear_forward l x = map2 (\<lambda>row b. dot row x + b) (weight l) (bias l)"

definition relu :: "real \<Rightarrow> real" where
  "relu x = max 0 x"

text \<open>\<open>nn.Sequential(nn.Linear(..), nn.ReLU(True), nn.Linear(..))\<close>\<close>

record mlp_adapter =
  fc1 :: linear
  fc2 :: linear

definition adapter_forward :: "mlp_adapter \<Rightarrow> tensor1 \<Rightarrow> tensor1" where
  "adapter_forward a x = linear_forward (fc2 a) (map relu (linear_forward (fc1 a) x))"

text \<open>
  \<open>nn.functional.normalize(x, dim=-1, p=2)\<close> on one vector: the vector divided by
  its Euclidean norm, the norm being raised to \<open>1e-12\<close> when it is smaller.
\<close>

definition l2_norm :: "tensor1 \<Rightarrow> real" where
  "l2_norm v = sqrt (sum_list (map (\<lambda>x. x ^ 2) v))"

definition normalize_l2 :: "tensor1 \<Rightarrow> tensor1" where
  "normalize_l2 v = map (\<lambda>x. x / max (l2_norm v) (1 / 10 ^ 12)) v"

subsection \<open>Conversion to single precision\<close>

text \<open>
  \<open>.float()\<close> on one value: the value is brought into \<open>[1, 2)\<close> by halving or
  doubling, its mantissa is rounded to 23 binary places (ties to even), and the
  scaling is undone. This is the conversion for magnitudes in the normal range of
  single precision, where 300 halvings or doublings are more than enough; overflow to
  infinity and subnormal numbers are left out.
\<close>

definition round_half_even :: "real \<Rightarrow> int" where
  "round_half_even y =
     (let f = \<lfloor>y\<rfloor>; r = y - of_int f
      in if r < 1 / 2 then f
         else if 1 / 2 < r then f + 1
         else if even f then f else f + 1)"

fun round_mantissa :: "nat \<Rightarrow> real \<Rightarrow> real" where
  "round_mantissa 0 x = x"
| "round_mantissa (Suc n) x =
     (if 2 \<le> x then 2 * round_mantissa n (x / 2)
      else if x < 1 then round_mantissa n (x * 2) / 2
      else of_int (round_half_even (x * 2 ^ 23)) / 2 ^ 23)"

definition float32 :: "real \<Rightarrow> real" where
  "float32 x =
     (if x = 0 then 0
      else if 0 < x then round_mantissa 300 x
      else - round_mantissa 300 (- x))"

subsection \<open>Construction\<close>

text \<open>
  What the constructor takes from outside the program: the array \<open>np.load\<close> reads at
  a path (or the error it raises), the conversion \<open>.float()\<close> of one stored value to
  single precision, the draw of \<open>torch.randn\<close>, and the initial weights and biases
  \<open>nn.Linear\<close> draws for a layer of given output and input size.
\<close>

record init_env =
  np_load :: "string \<Rightarrow> py_error + tensor2"
  to_float :: "real \<Rightarrow> real"
  randn :: "nat \<Rightarrow> nat \<Rightarrow> tensor2"
  init_weight :: "nat \<Rightarrow> nat \<Rightarrow> tensor2"
  init_bias :: "nat \<Rightarrow> tensor1"

definition nn_Linear :: "init_env \<Rightarrow> nat \<Rightarrow> nat \<Rightarrow> linear" where
  "nn_Linear env n_in n_out =
     \<lparr>in_features = n_in, out_features = n_out,
      weight = init_weight env n_out n_in, bias = init_bias env n_out\<rparr>"

text \<open>The keyword arguments of \<open>YOLOWorldPromptDetector.__init__\<close>.\<close>

record prompt_kwargs =
  kw_mm_neck :: bool
  kw_num_train_classes :: nat
  kw_num_test_classes :: nat
  kw_prompt_dim :: nat
  kw_num_prompts :: nat
  kw_embedding_path :: string
  kw_freeze_prompt :: bool
  kw_use_mlp_adapter :: bool

text \<open>
  The attributes of the detector: \<open>requires_grad\<close> is the flag of the parameter
  \<open>embeddings\<close>, \<open>p_with_neck\<close> comes from the base class.
\<close>

record prompt_detector =
  p_mm_neck :: bool
  p_with_neck :: bool
  num_training_classes :: nat
  p_num_test_classes :: nat
  prompt_dim :: nat
  num_prompts :: nat
  freeze_prompt :: bool
  use_mlp_adapter :: bool
  embeddings :: tensor2
  requires_grad :: bool
  adapter :: "mlp_adapter option"

text \<open>Lines 175 to 183: the table from the file, or a random one with unit rows.\<close>

definition init_embeddings :: "init_env \<Rightarrow> prompt_kwargs \<Rightarrow> py_error + tensor2" where
  "init_embeddings env kw =
     (if length (kw_embedding_path kw) > 0 then
        (case np_load env (kw_embedding_path kw) of
           Inl e \<Rightarrow> Inl e
         | Inr arr \<Rightarrow> Inr (map (map (to_float env)) arr))
      else
        Inr (map normalize_l2 (randn env (kw_num_prompts kw) (kw_prompt_dim kw))))"

definition prompt_init ::
  "init_env \<Rightarrow> prompt_kwargs \<Rightarrow> bool \<Rightarrow> py_error + prompt_detector" where
  "prompt_init env kw neck_given =
     (case init_embeddings env kw of
        Inl e \<Rightarrow> Inl e
      | Inr emb \<Rightarrow>
          Inr \<lparr>p_mm_neck = kw_mm_neck kw,
               p_with_neck = neck_given,
               num_training_classes = kw_num_train_classes kw,
               p_num_test_classes = kw_num_test_classes kw,
               prompt_dim = kw_prompt_dim kw,
               num_prompts = kw_num_prompts kw,
               freeze_prompt = kw_freeze_prompt kw,
               use_mlp_adapter = kw_use_mlp_adapter kw,
               embeddings = emb,
               requires_grad = (if kw_freeze_prompt kw then False else True),
               adapter =
                 (if kw_use_mlp_adapter kw then
                    Some \<lparr>fc1 = nn_Linear env (kw_prompt_dim kw) (kw_prompt_dim kw * 2),
                          fc2 = nn_Linear env (kw_prompt_dim kw * 2) (kw_prompt_dim kw)\<rparr>
                  else None)\<rparr>)"

subsection \<open>Feature extraction\<close>

text \<open>
  Lines 246 to 250: \<open>self.embeddings[None]\<close> is the table as a batch of one; with an
  adapter every embedding is replaced by the normalised sum of itself and the
  adapter's output; \<open>repeat\<close> copies the batch of one \<open>batch_size\<close> times.
\<close>

definition refine :: "mlp_adapter \<Rightarrow> tensor1 \<Rightarrow> tensor1" where
  "refine a e = normalize_l2 (add1 (adapter_forward a e) e)"

definition prompt_txt_feats :: "prompt_detector \<Rightarrow> nat \<Rightarrow> tensor3" where
  "prompt_txt_feats d batch_size =
     (let txt_feats = [embeddings d];
          txt_feats' =
            (case adapter d of
               Some a \<Rightarrow> map (map (refine a)) txt_feats
             | None \<Rightarrow> txt_feats)
      in concat (replicate batch_size txt_feats'))"

text \<open>
  \<open>extract_feat\<close>: \<open>image_features\<close> is the first component of
  \<open>self.backbone(batch_inputs, None)\<close> and \<open>batch_size\<close> reads
  \<open>img_feats[0].shape[0]\<close>.
\<close>

definition prompt_extract_feat ::
  "('i \<Rightarrow> 'f) \<Rightarrow> ('f \<Rightarrow> nat) \<Rightarrow> ('f, 'r) framework \<Rightarrow> prompt_detector \<Rightarrow> 'i
     \<Rightarrow> 'f \<times> tensor3" where
  "prompt_extract_feat image_features batch_size fw d batch_inputs =
     (let img_feats = image_features batch_inputs;
          txt_feats = prompt_txt_feats d (batch_size img_feats);
          img_feats' =
            (if p_with_neck d then
               (if p_mm_neck d then neck fw img_feats (Some txt_feats)
                else neck fw img_feats None)
             else img_feats)
      in (img_feats', txt_feats))"

text \<open>
  The shapes the adapter needs: rows of \<open>prompt_dim\<close> entries in the table, and
  layers whose weights and biases have the sizes \<open>nn.Linear\<close> gives them.
\<close>

definition linear_shaped :: "nat \<Rightarrow> nat \<Rightarrow> linear \<Rightarrow> bool" where
  "linear_shaped n_in n_out l =
     (has_shape n_out n_in (weight l) \<and> length (bias l) = n_out)"

definition adapter_shaped :: "nat \<Rightarrow> mlp_adapter \<Rightarrow> bool" where
  "adapter_shaped n a =
     (linear_shaped n (n * 2) (fc1 a) \<and> linear_shaped (n * 2) n (fc2 a))"

section \<open>Concrete detectors, samples and heads\<close>

text \<open>The inputs at which the theorems below are instantiated.\<close>

definition det_cached :: detector where
  "det_cached =
     \<lparr>mm_neck = False, with_neck = False, num_train_classes = 80, num_test_classes = 80,
      texts = Some [[''cat'']], text_feats = Some [[[1, 0]]],
      bbox_head_num_classes = 80, calls = []\<rparr>"

definition det_plain :: detector where
  "det_plain =
     \<lparr>mm_neck = False, with_neck = False, num_train_classes = 80, num_test_classes = 80,
      texts = None, text_feats = None, bbox_head_num_classes = 80, calls = []\<rparr>"

text \<open>
  A backbone that gives every text the embedding \<open>[1, 0]\<close>, and a framework whose
  neck changes nothing and whose head returns one result per class.
\<close>

definition backbone0 :: "(nat, nat) backbone" where
  "backbone0 =
     \<lparr>forward_text = (\<lambda>ts. map (map (\<lambda>_. [1, 0])) ts),
      forward_image = (\<lambda>x. x + 1),
      forward = (\<lambda>x ts. (x + 1, map (map (\<lambda>_. [1, 0])) ts))\<rparr>"

definition framework0 :: "(nat, nat) framework" where
  "framework0 =
     \<lparr>neck = (\<lambda>f _. f),
      head_predict = (\<lambda>n f t b r. [0..<n]),
      add_pred_to_datasample = (\<lambda>b rs. b)\<rparr>"

definition sample_with :: "nat data_sample" where
  "sample_with = \<lparr>sample_texts = Some [''dog''], pred_instances = None\<rparr>"

definition sample_without :: "nat data_sample" where
  "sample_without = \<lparr>sample_texts = None, pred_instances = None\<rparr>"

definition head_a :: "unit contrast_head" where
  "head_a = \<lparr>forward_no_normalization = (\<lambda>_ _. [[0, ln 3], [ln 3, 0]]),
             forward_flattened = (\<lambda>_ _. [[0, 0], [0, 0]])\<rparr>"

definition head_b :: "unit contrast_head" where
  "head_b = \<lparr>forward_no_normalization = (\<lambda>_ _. [[0, 0], [ln 3, ln 3]]),
             forward_flattened = (\<lambda>_ _. [[0, 0], [0, 0]])\<rparr>"

text \<open>
  An embedding file of two rows, read without change of value; the random draws are
  ones, and \<open>nn.Linear\<close> starts from zero weights and biases.
\<close>

definition env_file :: init_env where
  "env_file =
     \<lparr>np_load = (\<lambda>p. if p = ''emb.npy'' then Inr [[3, 4], [0, 1]] else Inl FileNotFoundError),
      to_float = (\<lambda>x. x),
      randn = (\<lambda>n m. replicate n (replicate m 1)),
      init_weight = (\<lambda>n_out n_in. replicate n_out (replicate n_in 0)),
      init_bias = (\<lambda>n_out. replicate n_out 0)\<rparr>"

definition kw_file :: prompt_kwargs where
  "kw_file =
     \<lparr>kw_mm_neck = False, kw_num_train_classes = 80, kw_num_test_classes = 80,
      kw_prompt_dim = 2, kw_num_prompts = 2, kw_embedding_path = ''emb.npy'',
      kw_freeze_prompt = False, kw_use_mlp_adapter = True\<rparr>"

text \<open>An adapter that computes \<open>relu\<close> of its input, and one that computes zero.\<close>

definition adapter_relu :: mlp_adapter where
  "adapter_relu =
     \<lparr>fc1 = \<lparr>in_features = 2, out_features = 4,
              weight = [[1, 0], [0, 1], [0, 0], [0, 0]], bias = [0, 0, 0, 0]\<rparr>,
      fc2 = \<lparr>in_features = 4, out_features = 2,
              weight = [[1, 0, 0, 0], [0, 1, 0, 0]], bias = [0, 0]\<rparr>\<rparr>"

definition adapter_zero :: mlp_adapter where
  "adapter_zero =
     \<lparr>fc1 = \<lparr>in_features = 2, out_features = 4,
              weight = [[0, 0], [0, 0], [0, 0], [0, 0]], bias = [0, 0, 0, 0]\<rparr>,
      fc2 = \<lparr>in_features = 4, out_features = 2,
              weight = [[0, 0, 0, 0], [0, 0, 0, 0]], bias = [0, 0]\<rparr>\<rparr>"

text \<open>
  The detector that \<open>kw_file\<close> and \<open>env_file\<close> construct, the same detector with
  the adapter trained to \<open>adapter_relu\<close>, and one whose table has a zero row.
\<close>

definition det_file :: prompt_detector where
  "det_file =
     \<lparr>p_mm_neck = False, p_with_neck = True, num_training_classes = 80,
      p_num_test_classes = 80, prompt_dim = 2, num_prompts = 2, freeze_prompt = False,
      use_mlp_adapter = True, embeddings = [[3, 4], [0, 1]], requires_grad = True,
      adapter = Some adapter_zero\<rparr>"

definition det_adapter :: prompt_detector where
  "det_adapter = det_file\<lparr>adapter := Some adapter_relu\<rparr>"

definition det_zero_row :: prompt_detector where
  "det_zero_row = det_file\<lparr>embeddings := [[0, 0], [1, 0]]\<rparr>"

text \<open>
  The same environment with the conversion to single precision, and one whose file
  holds a double-precision value, \<open>1 + 2^-30\<close>, that single precision cannot hold.
\<close>

definition env_single :: init_env where
  "env_single = env_file\<lparr>to_float := float32\<rparr>"

definition env_double :: init_env where
  "env_double =
     env_file\<lparr>np_load := (\<lambda>p. if p = ''emb.npy''
                                then Inr [[1073741825 / 1073741824, 0], [0, 1]]
                                else Inl FileNotFoundError),
              to_float := float32\<rparr>"

definition det_double :: prompt_detector where
  "det_double = det_file\<lparr>embeddings := [[1, 0], [0, 1]]\<rparr>"

section \<open>Facts about the tensor operations\<close>

lemma sum_list_map_nth: "sum_list (map f xs) = (\<Sum>i<length xs. f (xs ! i))"
proof -
  have "sum_list (map f xs) = (\<Sum>i = 0..<length (map f xs). map f xs ! i)"
    by (rule sum_list_sum_nth)
  also have "\<dots> = (\<Sum>i<length xs. f (xs ! i))"
    by (simp add: atLeast0LessThan)
  finally show ?thesis .
qed

lemma length_foldl_add1:
  "length r = n \<Longrightarrow> list_all (\<lambda>x. length x = n) rs \<Longrightarrow> length (foldl add1 r rs) = n"
  by (induction rs arbitrary: r) (simp_all add: add1_def)

lemma nth_foldl_add1:
  "length r = n \<Longrightarrow> list_all (\<lambda>x. length x = n) rs \<Longrightarrow> i < n
     \<Longrightarrow> foldl add1 r rs ! i = r ! i + sum_list (map (\<lambda>x. x ! i) rs)"
  by (induction rs arbitrary: r) (simp_all add: add1_def algebra_simps)

lemma has_shape_add2:
  "has_shape m n a \<Longrightarrow> has_shape m n b \<Longrightarrow> has_shape m n (add2 a b)"
  by (auto simp: has_shape_def add2_def add1_def list_all_length)

lemma nth_add2:
  "has_shape m n a \<Longrightarrow> has_shape m n b \<Longrightarrow> c < m \<Longrightarrow> v < n
     \<Longrightarrow> add2 a b ! c ! v = a ! c ! v + b ! c ! v"
  by (auto simp: has_shape_def add2_def add1_def list_all_length)

lemma has_shape_foldl_add2:
  "has_shape m n r \<Longrightarrow> list_all (has_shape m n) rs \<Longrightarrow> has_shape m n (foldl add2 r rs)"
  by (induction rs arbitrary: r) (simp_all add: has_shape_add2)

lemma nth_foldl_add2:
  "has_shape m n r \<Longrightarrow> list_all (has_shape m n) rs \<Longrightarrow> c < m \<Longrightarrow> v < n
     \<Longrightarrow> foldl add2 r rs ! c ! v = r ! c ! v + sum_list (map (\<lambda>x. x ! c ! v) rs)"
  by (induction rs arbitrary: r) (simp_all add: has_shape_add2 nth_add2 algebra_simps)

lemma sum_list_hd_tl:
  assumes "xs \<noteq> []"
  shows "f (hd xs) + sum_list (map f (tl xs)) = (\<Sum>i<length xs. f (xs ! i))"
proof -
  have "f (hd xs) + sum_list (map f (tl xs)) = sum_list (map f xs)"
    using assms by (cases xs) simp_all
  then show ?thesis
    by (simp only: sum_list_map_nth)
qed

lemma mean_dim0_shape:
  "t \<noteq> [] \<Longrightarrow> list_all (has_shape m n) t \<Longrightarrow> has_shape m n (mean_dim0 t)"
proof -
  assume a: "t \<noteq> []" "list_all (has_shape m n) t"
  then have "has_shape m n (foldl add2 (hd t) (tl t))"
    by (cases t) (simp_all add: has_shape_foldl_add2)
  then show ?thesis
    by (simp add: mean_dim0_def has_shape_def list_all_length)
qed

lemma mean_dim0_nth:
  assumes "t \<noteq> []" "list_all (has_shape m n) t" "c < m" "v < n"
  shows "mean_dim0 t ! c ! v = (\<Sum>h<length t. t ! h ! c ! v) / real (length t)"
proof -
  have s: "has_shape m n (foldl add2 (hd t) (tl t))"
    using assms(1,2) by (cases t) (simp_all add: has_shape_foldl_add2)
  have "has_shape m n (hd t)" "list_all (has_shape m n) (tl t)"
    using assms(1,2) by (cases t, simp_all)+
  then have "foldl add2 (hd t) (tl t) ! c ! v
               = hd t ! c ! v + sum_list (map (\<lambda>x. x ! c ! v) (tl t))"
    using assms(3,4) by (rule nth_foldl_add2)
  also have "\<dots> = (\<Sum>h<length t. t ! h ! c ! v)"
    using sum_list_hd_tl [OF assms(1), of "\<lambda>x. x ! c ! v"] .
  finally show ?thesis
    using s assms(3,4) by (simp add: mean_dim0_def has_shape_def list_all_length)
qed

lemma Max_insert_below:
  fixes b x :: real
  assumes "finite S" "b \<le> x"
  shows "Max (insert b (insert x S)) = Max (insert x S)"
proof -
  have "x \<le> Max (insert x S)" using assms(1) by (intro Max_ge) simp_all
  with assms(2) have "b \<le> Max (insert x S)" by simp
  moreover have "Max (insert b (insert x S)) = max b (Max (insert x S))"
    using assms(1) by (intro Max_insert) simp_all
  ultimately show ?thesis by (simp add: max_absorb2)
qed

lemma Max_insert_above:
  fixes b x :: real
  assumes "finite S" "x \<le> b"
  shows "Max (insert b (insert x S)) = Max (insert b S)"
  using Max_insert_below [OF assms] by (simp add: insert_commute)

lemma foldl_max_step:
  "foldl max_step (b, i) (zip xs [k..<k + length xs]) = (m, j) \<Longrightarrow>
     m = Max (insert b (set xs)) \<and>
     (j = i \<and> m = b \<or> k \<le> j \<and> j < k + length xs \<and> xs ! (j - k) = m)"
proof (induction xs arbitrary: b i k)
  case Nil
  then show ?case by simp
next
  case (Cons x xs)
  have upt: "[k..<k + length (x # xs)] = k # [Suc k..<Suc k + length xs]"
    using upt_conv_Cons [of k "k + Suc (length xs)"] by simp
  have step: "foldl max_step (b, i) (zip (x # xs) [k..<k + length (x # xs)])
                = foldl max_step (max_step (b, i) (x, k)) (zip xs [Suc k..<Suc k + length xs])"
    by (simp only: upt zip_Cons_Cons foldl_Cons)
  show ?case
  proof (cases "b < x")
    case True
    then have "max_step (b, i) (x, k) = (x, k)" by (simp add: max_step_def)
    with Cons.prems step
    have f: "foldl max_step (x, k) (zip xs [Suc k..<Suc k + length xs]) = (m, j)"
      by simp
    have M: "Max (insert b (set (x # xs))) = Max (insert x (set xs))"
      unfolding list.set(2) by (rule Max_insert_below) (use True in simp_all)
    from Cons.IH [OF f] True show ?thesis
      by (simp only: M) (auto simp: Suc_diff_le)
  next
    case False
    then have "max_step (b, i) (x, k) = (b, i)" by (simp add: max_step_def)
    with Cons.prems step
    have f: "foldl max_step (b, i) (zip xs [Suc k..<Suc k + length xs]) = (m, j)"
      by simp
    have M: "Max (insert b (set (x # xs))) = Max (insert b (set xs))"
      unfolding list.set(2) by (rule Max_insert_above) (use False in simp_all)
    from Cons.IH [OF f] False show ?thesis
      by (simp only: M) (auto simp: Suc_diff_le)
  qed
qed

lemma max_index_correct:
  assumes "col \<noteq> []"
  shows "fst (max_index col) = Max (set col)
         \<and> snd (max_index col) < length col
         \<and> col ! snd (max_index col) = fst (max_index col)"
proof -
  obtain x xs where col: "col = x # xs" using assms by (cases col) auto
  obtain m j where mj: "max_index col = (m, j)" by (cases "max_index col")
  have "[1..<length col] = [1..<1 + length xs]" by (simp add: col)
  with mj have "foldl max_step (x, 0) (zip xs [1..<1 + length xs]) = (m, j)"
    by (simp add: max_index_def col)
  from foldl_max_step [OF this]
  have r: "m = Max (insert x (set xs))"
    "j = 0 \<and> m = x \<or> 1 \<le> j \<and> j < 1 + length xs \<and> xs ! (j - 1) = m"
    by auto
  show ?thesis
    unfolding mj using r by (auto simp: col nth_Cons')
qed


lemma has_shapeD:
  "has_shape m n t \<Longrightarrow> length t = m"
  "has_shape m n t \<Longrightarrow> c < m \<Longrightarrow> length (t ! c) = n"
  by (simp_all add: has_shape_def list_all_length)

lemma has_shape_hd: "has_shape m n t \<Longrightarrow> 0 < m \<Longrightarrow> length (hd t) = n"
  by (cases t) (simp_all add: has_shape_def)

lemma permute_10_shape:
  "has_shape m n t \<Longrightarrow> 0 < m \<Longrightarrow> has_shape n m (permute_10 t)"
  by (simp add: permute_10_def has_shape_hd has_shape_def list_all_length)

lemma permute_10_nth:
  "has_shape m n t \<Longrightarrow> 0 < m \<Longrightarrow> i < m \<Longrightarrow> j < n \<Longrightarrow> permute_10 t ! j ! i = t ! i ! j"
  by (simp add: permute_10_def has_shape_hd has_shapeD)

lemma permute_10_col:
  "has_shape m n t \<Longrightarrow> 0 < m \<Longrightarrow> j < n \<Longrightarrow> permute_10 t ! j = map (\<lambda>i. t ! i ! j) [0..<m]"
  by (simp add: permute_10_def has_shape_hd has_shapeD)

lemma max_dim0_correct:
  assumes sh: "has_shape C V t" and C: "0 < C"
  shows "\<exists>scores labels. max_dim0 t = Inr (scores, labels)
           \<and> length scores = V \<and> length labels = V
           \<and> (\<forall>v<V. scores ! v = Max ((\<lambda>c. t ! c ! v) ` {..<C})
                    \<and> labels ! v < C \<and> t ! (labels ! v) ! v = scores ! v)"
proof -
  have ne: "t \<noteq> []" using sh C by (auto simp: has_shape_def)
  let ?cols = "permute_10 t"
  have len: "length ?cols = V"
    using permute_10_shape [OF sh C] by (simp add: has_shape_def)
  have m: "max_dim0 t = Inr (map (fst \<circ> max_index) ?cols, map (snd \<circ> max_index) ?cols)"
    using ne by (simp add: max_dim0_def Let_def)
  have "scoresv = Max ((\<lambda>c. t ! c ! v) ` {..<C}) \<and> labelv < C \<and> t ! labelv ! v = scoresv"
    if v: "v < V" and s: "scoresv = fst (max_index (?cols ! v))"
      and l: "labelv = snd (max_index (?cols ! v))" for v scoresv labelv
  proof -
    have col: "?cols ! v = map (\<lambda>i. t ! i ! v) [0..<C]"
      using permute_10_col [OF sh C v] .
    then have cne: "?cols ! v \<noteq> []" using C by simp
    have set: "set (?cols ! v) = (\<lambda>c. t ! c ! v) ` {..<C}"
      by (simp add: col atLeast0LessThan)
    from max_index_correct [OF cne]
    have a: "fst (max_index (?cols ! v)) = Max (set (?cols ! v))"
      and b: "snd (max_index (?cols ! v)) < length (?cols ! v)"
      and c: "?cols ! v ! snd (max_index (?cols ! v)) = fst (max_index (?cols ! v))"
      by simp_all
    from b have b': "labelv < C" by (simp add: l col)
    then have "?cols ! v ! labelv = t ! labelv ! v" by (simp add: col)
    with a b' c show ?thesis by (simp add: s l set)
  qed
  then show ?thesis
    using m len by simp
qed

lemma sum_rows_length:
  assumes "rows \<noteq> []" "list_all (\<lambda>r. length r = n) rows"
  shows "length (foldl add1 (hd rows) (tl rows)) = n"
  using assms by (cases rows) (simp_all add: length_foldl_add1)

lemma sum_rows_nth:
  assumes "rows \<noteq> []" "list_all (\<lambda>r. length r = n) rows" "c < n"
  shows "foldl add1 (hd rows) (tl rows) ! c = (\<Sum>h<length rows. rows ! h ! c)"
proof -
  have "length (hd rows) = n" "list_all (\<lambda>r. length r = n) (tl rows)"
    using assms(1,2) by (cases rows, simp_all)+
  then have "foldl add1 (hd rows) (tl rows) ! c
               = hd rows ! c + sum_list (map (\<lambda>x. x ! c) (tl rows))"
    using assms(3) by (rule nth_foldl_add1)
  also have "\<dots> = (\<Sum>h<length rows. rows ! h ! c)"
    using sum_list_hd_tl [OF assms(1), of "\<lambda>x. x ! c"] .
  finally show ?thesis .
qed

lemma sum_list_butlast:
  "sum_list (butlast row) = (\<Sum>k<length row - 1. row ! k)"
proof -
  have "sum_list (butlast row) = (\<Sum>k<length (butlast row). butlast row ! k)"
    using sum_list_map_nth [of "\<lambda>x. x" "butlast row"] by simp
  also have "\<dots> = (\<Sum>k<length row - 1. row ! k)"
    by (rule sum.cong) (simp_all add: nth_butlast)
  finally show ?thesis .
qed

lemma permute_201_nth:
  assumes "t \<noteq> []" "list_all (has_shape C V) t" "0 < C" "v < V"
  shows "permute_201 t ! v = map (\<lambda>i. map (\<lambda>j. t ! i ! j ! v) [0..<C]) [0..<length t]"
    and "length (permute_201 t) = V"
proof -
  have h: "has_shape C V (hd t)" using assms(1,2) by (cases t) simp_all
  then have a: "length (hd t) = C" by (simp add: has_shape_def)
  have "length (hd t ! 0) = V" using h assms(3) by (rule has_shapeD(2))
  moreover have "hd t \<noteq> []" using a assms(3) by auto
  ultimately have b: "length (hd (hd t)) = V" by (simp add: hd_conv_nth)
  show "permute_201 t ! v = map (\<lambda>i. map (\<lambda>j. t ! i ! j ! v) [0..<C]) [0..<length t]"
    using assms(4) by (simp add: permute_201_def a b)
  show "length (permute_201 t) = V"
    by (simp add: permute_201_def b)
qed

lemma renormalize_nth:
  assumes "has_shape V (Suc H) sl" "v < V"
  shows "renormalize (map (\<lambda>row. last row < 1 / 2) sl) (map butlast sl) ! v
           = map (spec_mix_weight sl v) [0..<H]"
    and "length (renormalize (map (\<lambda>row. last row < 1 / 2) sl) (map butlast sl)) = V"
proof -
  have len: "length sl = V" and row: "length (sl ! v) = Suc H"
    using assms by (simp_all add: has_shape_def list_all_length)
  have bl: "length (butlast (sl ! v)) = H" by (simp add: row)
  have s: "sum_list (butlast (sl ! v)) = (\<Sum>k<length (sl ! v) - 1. sl ! v ! k)"
    by (rule sum_list_butlast)
  have "renormalize (map (\<lambda>row. last row < 1 / 2) sl) (map butlast sl) ! v
          = (if last (sl ! v) < 1 / 2
             then map (\<lambda>w. w / (sum_list (butlast (sl ! v)) + 1 / 10 ^ 12)) (butlast (sl ! v))
             else butlast (sl ! v))"
    using assms(2) by (simp add: renormalize_def len)
  also have "\<dots> = map (spec_mix_weight sl v) [0..<H]"
  proof (cases "last (sl ! v) < 1 / 2")
    case True
    have "map (\<lambda>w. w / (sum_list (butlast (sl ! v)) + 1 / 10 ^ 12)) (butlast (sl ! v))
            = map (spec_mix_weight sl v) [0..<H]"
    proof (rule nth_equalityI)
      show "length (map (\<lambda>w. w / (sum_list (butlast (sl ! v)) + 1 / 10 ^ 12))
                      (butlast (sl ! v)))
              = length (map (spec_mix_weight sl v) [0..<H])"
        by (simp add: row)
    next
      fix i
      assume "i < length (map (\<lambda>w. w / (sum_list (butlast (sl ! v)) + 1 / 10 ^ 12))
                            (butlast (sl ! v)))"
      then have i: "i < H" by (simp add: row)
      then have "butlast (sl ! v) ! i = sl ! v ! i" by (simp add: nth_butlast row)
      with i True show "map (\<lambda>w. w / (sum_list (butlast (sl ! v)) + 1 / 10 ^ 12))
                         (butlast (sl ! v)) ! i
              = map (spec_mix_weight sl v) [0..<H] ! i"
        by (simp add: row spec_mix_weight_def s)
    qed
    with True show ?thesis by simp
  next
    case False
    have "butlast (sl ! v) = map (spec_mix_weight sl v) [0..<H]"
      using False by (intro nth_equalityI) (simp_all add: row spec_mix_weight_def nth_butlast)
    with False show ?thesis by simp
  qed
  finally show "renormalize (map (\<lambda>row. last row < 1 / 2) sl) (map butlast sl) ! v
           = map (spec_mix_weight sl v) [0..<H]" .
  show "length (renormalize (map (\<lambda>row. last row < 1 / 2) sl) (map butlast sl)) = V"
    by (simp add: renormalize_def len)
qed

lemma combine_scale:
  assumes ne: "cls_logits \<noteq> []"
    and sh: "list_all (has_shape C V) cls_logits"
    and C: "0 < C" and V: "0 < V"
    and sl: "has_shape V (Suc (length cls_logits)) sl"
  shows "\<exists>L. combine cls_logits (Some sl) = Inr L \<and> has_shape C V L
           \<and> (\<forall>c<C. \<forall>v<V. L ! c ! v
                 = (\<Sum>h<length cls_logits. cls_logits ! h ! c ! v * spec_mix_weight sl v h))"
proof -
  let ?H = "length cls_logits"
  define P where "P = permute_201 cls_logits"
  define W where "W = renormalize (map (\<lambda>row. last row < 1 / 2) sl) (map butlast sl)"
  let ?M = "mul_last P W"
  let ?S = "sum_dim1 ?M"
  let ?L = "permute_10 ?S"
  have noempty: "\<not> list_ex (\<lambda>row. row = []) sl"
    using sl by (auto simp: has_shape_def list_all_iff list_ex_iff)
  have comb: "combine cls_logits (Some sl) = Inr ?L"
    unfolding P_def W_def using ne noempty by (simp add: combine_def stack_def Let_def)
  have Plen: "length P = V"
    unfolding P_def using permute_201_nth(2) [OF ne sh C] V by blast
  have Wlen: "length W = V"
    unfolding W_def using renormalize_nth(2) [OF sl] V by blast
  have Pv: "P ! v = map (\<lambda>i. map (\<lambda>j. cls_logits ! i ! j ! v) [0..<C]) [0..<?H]"
    if "v < V" for v
    unfolding P_def using ne sh C that by (rule permute_201_nth(1))
  have Wv: "W ! v = map (spec_mix_weight sl v) [0..<?H]" if "v < V" for v
    unfolding W_def using sl that by (rule renormalize_nth(1))
  have Mv: "?M ! v = map (\<lambda>h. map (\<lambda>c. cls_logits ! h ! c ! v * spec_mix_weight sl v h) [0..<C])
                       [0..<?H]" if v: "v < V" for v
  proof -
    have "?M ! v = map2 (\<lambda>row w. map (\<lambda>x. x * w) row) (P ! v) (W ! v)"
      using v by (simp add: mul_last_def Plen Wlen)
    also have "\<dots> = map (\<lambda>h. map (\<lambda>c. cls_logits ! h ! c ! v * spec_mix_weight sl v h) [0..<C])
                       [0..<?H]"
      by (rule nth_equalityI)
         (simp_all add: Pv [OF v] Wv [OF v])
    finally show ?thesis .
  qed
  have Mlen: "length ?M = V" by (simp add: mul_last_def Plen Wlen)
  have Slen: "length ?S = V" by (simp add: sum_dim1_def Mlen)
  have Srow: "length (?S ! v) = C
     \<and> (\<forall>c<C. ?S ! v ! c = (\<Sum>h<?H. cls_logits ! h ! c ! v * spec_mix_weight sl v h))"
    if v: "v < V" for v
  proof -
    let ?rows = "?M ! v"
    have rne: "?rows \<noteq> []" using ne by (simp add: Mv [OF v])
    have rall: "list_all (\<lambda>r. length r = C) ?rows"
      by (simp add: Mv [OF v] list_all_length)
    have rlen: "length ?rows = ?H" by (simp add: Mv [OF v])
    have Sv: "?S ! v = foldl add1 (hd ?rows) (tl ?rows)"
      using v by (simp add: sum_dim1_def Mlen)
    have "?S ! v ! c = (\<Sum>h<?H. cls_logits ! h ! c ! v * spec_mix_weight sl v h)"
      if c: "c < C" for c
    proof -
      have "?S ! v ! c = (\<Sum>h<length ?rows. ?rows ! h ! c)"
        unfolding Sv using rne rall c by (rule sum_rows_nth)
      also have "\<dots> = (\<Sum>h<?H. cls_logits ! h ! c ! v * spec_mix_weight sl v h)"
        unfolding rlen by (rule sum.cong) (simp_all add: Mv [OF v] c)
      finally show ?thesis .
    qed
    moreover have "length (?S ! v) = C"
      unfolding Sv using rne rall by (rule sum_rows_length)
    ultimately show ?thesis by blast
  qed
  have Ssh: "has_shape V C ?S"
    using Slen Srow by (simp add: has_shape_def list_all_length)
  have Lsh: "has_shape C V ?L"
    using permute_10_shape [OF Ssh V] .
  have "?L ! c ! v = (\<Sum>h<?H. cls_logits ! h ! c ! v * spec_mix_weight sl v h)"
    if "c < C" "v < V" for c v
    using permute_10_nth [OF Ssh V that(2,1)] Srow [OF that(2)] that(1) by simp
  with comb Lsh show ?thesis by blast
qed

lemma sigmoid_values: "sigmoid 0 = 1 / 2" "sigmoid (ln 3) = 3 / 4"
  by (simp_all add: sigmoid_def exp_minus)

section \<open>Facts about the text-driven detector\<close>

lemma gather_texts_all:
  "list_all has_texts ss \<Longrightarrow> gather_texts ss = Inr (map (the \<circ> sample_texts) ss)"
  by (induction ss) (auto simp: has_texts_def)

lemma gather_texts_missing:
  "\<not> list_all has_texts ss \<Longrightarrow> gather_texts ss = Inl AttributeError"
  by (induction ss) (auto simp: has_texts_def split: option.splits sum.splits)

lemma predict_of_extract:
  "extract_feat bb fw d x bds = Inr (d1, img, t0 # tfs) \<Longrightarrow>
   predict bb fw d x bds r
     = Inr (d1\<lparr>bbox_head_num_classes := length t0\<rparr>,
            add_pred_to_datasample fw bds (head_predict fw (length t0) img (t0 # tfs) bds r))"
  by (simp add: predict_def Let_def)

lemma cached_num_test_classes: "cached (d\<lparr>num_test_classes := k\<rparr>) = cached d"
  by (simp add: cached_def cong: option.case_cong)

lemma text_source_num_test_classes:
  "text_source (d\<lparr>num_test_classes := k\<rparr>) bds = text_source d bds"
  by (simp add: text_source_def cached_num_test_classes cong: sum.case_cong bool.case_cong)

lemma apply_neck_num_test_classes:
  "apply_neck fw (d\<lparr>num_test_classes := k\<rparr>) img tf = apply_neck fw d img tf"
  by (simp add: apply_neck_def)

lemma extract_feat_num_test_classes:
  assumes "extract_feat bb fw d x bds = Inr (d1, img, tf)"
  shows "extract_feat bb fw (d\<lparr>num_test_classes := k\<rparr>) x bds
           = Inr (d1\<lparr>num_test_classes := k\<rparr>, img, tf)"
  using assms
  by (auto simp: extract_feat_def text_source_num_test_classes apply_neck_num_test_classes
      split: sum.splits option.splits prod.splits)

lemma apply_neck_reparameterize:
  "apply_neck fw (reparameterize bb d ts) img tf = apply_neck fw d img tf"
  by (simp add: apply_neck_def reparameterize_def)

section \<open>Facts about the query\<close>

lemma combine_not_assertion: "combine ls sl \<noteq> Inl AssertionError"
  by (simp add: combine_def stack_def Let_def split: option.splits)

lemma max_dim0_not_assertion: "max_dim0 t \<noteq> Inl AssertionError"
  by (simp add: max_dim0_def Let_def)

section \<open>Facts about the adapter and the normalisation\<close>

lemma l2_norm_nonneg: "0 \<le> l2_norm v"
  by (auto simp: l2_norm_def intro!: sum_list_nonneg)

lemma sum_list_squares_div:
  fixes c :: real
  shows "sum_list (map (\<lambda>x. (x / c) ^ 2) v) = sum_list (map (\<lambda>x. x ^ 2) v) / c ^ 2"
  by (induction v) (simp_all add: power_divide add_divide_distrib)

lemma l2_norm_div:
  assumes "0 < c"
  shows "l2_norm (map (\<lambda>x. x / c) v) = l2_norm v / c"
proof -
  have "l2_norm (map (\<lambda>x. x / c) v) = sqrt (sum_list (map (\<lambda>x. x ^ 2) v) / c ^ 2)"
    by (simp add: l2_norm_def comp_def sum_list_squares_div)
  also have "\<dots> = sqrt (sum_list (map (\<lambda>x. x ^ 2) v)) / sqrt (c ^ 2)"
    by (rule real_sqrt_divide)
  also have "sqrt (c ^ 2) = c" using assms by simp
  finally show ?thesis by (simp add: l2_norm_def)
qed

lemma normalize_l2_unit:
  assumes "1 / 10 ^ 12 \<le> l2_norm v"
  shows "l2_norm (normalize_l2 v) = 1"
proof -
  have pos: "0 < l2_norm v" using assms by (rule less_le_trans [rotated]) simp
  have "max (l2_norm v) (1 / 10 ^ 12) = l2_norm v" using assms by (simp add: max_def)
  then have "normalize_l2 v = map (\<lambda>x. x / l2_norm v) v"
    by (simp add: normalize_l2_def)
  then have "l2_norm (normalize_l2 v) = l2_norm v / l2_norm v"
    using l2_norm_div [OF pos, of v] by simp
  with pos show ?thesis by simp
qed

lemma length_normalize_l2: "length (normalize_l2 v) = length v"
  by (simp add: normalize_l2_def)

lemma length_linear_forward:
  "linear_shaped n_in n_out l \<Longrightarrow> length (linear_forward l x) = n_out"
  by (simp add: linear_shaped_def linear_forward_def has_shape_def)

lemma length_adapter_forward:
  "adapter_shaped n a \<Longrightarrow> length (adapter_forward a e) = n"
  unfolding adapter_shaped_def adapter_forward_def
  by (elim conjE) (rule length_linear_forward)

lemma length_refine:
  "adapter_shaped n a \<Longrightarrow> length e = n \<Longrightarrow> length (refine a e) = n"
  by (simp add: refine_def length_normalize_l2 add1_def length_adapter_forward)

lemma prompt_txt_feats_adapter:
  "adapter d = Some a \<Longrightarrow>
   prompt_txt_feats d B = replicate B (map (refine a) (embeddings d))"
  by (induction B) (simp_all add: prompt_txt_feats_def)

lemma sqrt_100: "sqrt 100 = 10"
  using real_sqrt_abs [of 10] by simp

section \<open>Facts about the conversion to single precision\<close>

lemma round_mantissa_numeral:
  "round_mantissa (numeral k) x =
     (if 2 \<le> x then 2 * round_mantissa (pred_numeral k) (x / 2)
      else if x < 1 then round_mantissa (pred_numeral k) (x * 2) / 2
      else of_int (round_half_even (x * 2 ^ 23)) / 2 ^ 23)"
  by (simp add: numeral_eq_Suc)

lemma float32_values:
  "float32 0 = 0" "float32 1 = 1" "float32 3 = 3" "float32 4 = 4"
  "float32 (1073741825 / 1073741824) = 1"
  by (simp_all add: float32_def round_mantissa_numeral round_half_even_def Let_def)

lemma map_fixed_iff: "map f xs = xs \<longleftrightarrow> list_all (\<lambda>x. f x = x) xs"
  by (induction xs) auto

lemma map_map_fixed_iff:
  "map (map f) xss = xss \<longleftrightarrow> list_all (list_all (\<lambda>x. f x = x)) xss"
  by (induction xss) (auto simp: map_fixed_iff)

section \<open>The text source of \<open>extract_feat\<close>\<close>

text \<open>
  Claim C10. An empty list as \<open>batch_data_samples\<close> makes \<open>extract_feat\<close> raise
  \<open>IndexError\<close>, whatever the detector holds: the test of the list branch reads
  \<open>batch_data_samples[0]\<close>, so neither the cached embeddings nor the \<open>TypeError\<close>
  of the last branch is reached.
\<close>

theorem extract_feat_empty_list:
  "extract_feat bb fw d batch_inputs (BList []) = Inl IndexError"
  by (simp add: extract_feat_def text_source_def dict_with_texts_def list_with_texts_def)

text \<open>
  With the embeddings of \<open>det_cached\<close> in place the empty list still raises.
\<close>

theorem extract_feat_empty_list_cached:
  "text_feats det_cached \<noteq> None
   \<and> extract_feat backbone0 framework0 det_cached 7 (BList []) = Inl IndexError"
  using extract_feat_empty_list [of backbone0 framework0 det_cached 7]
  by (simp add: det_cached_def)

text \<open>
  Claim C3 as it is worded fails: a list whose first sample carries \<open>texts\<close> and whose
  second does not is taken by the list branch, and gathering the texts raises
  \<open>AttributeError\<close>; as worded, the cached embeddings would be the source.
\<close>

theorem text_source_not_as_worded:
  "text_source det_cached (BList [sample_with, sample_without]) = Inl AttributeError
   \<and> spec_text_source det_cached (BList [sample_with, sample_without]) = Inr UseCached"
  by (simp add: text_source_def spec_text_source_def dict_with_texts_def list_with_texts_def
      has_texts_def det_cached_def sample_with_def sample_without_def)

text \<open>
  Claim C3, amended. The text source is resolved in this order: with no samples, the
  cached texts and embeddings (\<open>AttributeError\<close> when they were never stored); with a
  mapping that has a \<open>texts\<close> key, those texts, to be encoded again, whether or not
  embeddings are cached; with a list whose first sample carries \<open>texts\<close>, the texts
  of all samples, to be encoded again (\<open>AttributeError\<close> when a later sample carries
  none); otherwise the cached embeddings when they exist. For any input but the empty
  list, \<open>TypeError\<close> is raised exactly when the input is not \<open>None\<close>, is not a
  mapping with \<open>texts\<close>, is not a list whose first sample carries \<open>texts\<close>, and no
  embeddings are cached.
\<close>

theorem text_source_priority:
  "(bds = BNone \<and> texts d = Some ts \<and> text_feats d = Some tf
      \<longrightarrow> text_source d bds = Inr (ts, Some tf))
   \<and> (bds = BNone \<and> (texts d = None \<or> text_feats d = None)
      \<longrightarrow> text_source d bds = Inl AttributeError)
   \<and> (bds = BDict kv \<and> map_of kv ''texts'' = Some ts
      \<longrightarrow> text_source d bds = Inr (ts, None))
   \<and> (bds = BList (s # ss) \<and> has_texts s \<and> list_all has_texts ss
      \<longrightarrow> text_source d bds = Inr (map (the \<circ> sample_texts) (s # ss), None))
   \<and> (bds = BList (s # ss) \<and> has_texts s \<and> \<not> list_all has_texts ss
      \<longrightarrow> text_source d bds = Inl AttributeError)
   \<and> (bds \<noteq> BNone \<and> \<not> dict_with_texts bds \<and> list_with_texts bds = Inr False
        \<and> texts d = Some ts \<and> text_feats d = Some tf
      \<longrightarrow> text_source d bds = Inr (ts, Some tf))
   \<and> (bds \<noteq> BList []
      \<longrightarrow> (text_source d bds = Inl TypeError
           \<longleftrightarrow> bds \<noteq> BNone \<and> \<not> dict_with_texts bds \<and> list_with_texts bds = Inr False
               \<and> text_feats d = None))"
proof (intro conjI impI)
  assume "bds = BNone \<and> texts d = Some ts \<and> text_feats d = Some tf"
  then show "text_source d bds = Inr (ts, Some tf)"
    by (simp add: text_source_def cached_def)
next
  assume "bds = BNone \<and> (texts d = None \<or> text_feats d = None)"
  then show "text_source d bds = Inl AttributeError"
    by (auto simp: text_source_def cached_def split: option.splits)
next
  assume "bds = BDict kv \<and> map_of kv ''texts'' = Some ts"
  then show "text_source d bds = Inr (ts, None)"
    by (simp add: text_source_def dict_with_texts_def)
next
  assume a: "bds = BList (s # ss) \<and> has_texts s \<and> list_all has_texts ss"
  then have "gather_texts (s # ss) = Inr (map (the \<circ> sample_texts) (s # ss))"
    using gather_texts_all [of "s # ss"] by simp
  with a show "text_source d bds = Inr (map (the \<circ> sample_texts) (s # ss), None)"
    by (simp add: text_source_def dict_with_texts_def list_with_texts_def has_texts_def)
next
  assume a: "bds = BList (s # ss) \<and> has_texts s \<and> \<not> list_all has_texts ss"
  then have "gather_texts (s # ss) = Inl AttributeError"
    using gather_texts_missing [of "s # ss"] by simp
  with a show "text_source d bds = Inl AttributeError"
    by (simp add: text_source_def dict_with_texts_def list_with_texts_def has_texts_def)
next
  assume "bds \<noteq> BNone \<and> \<not> dict_with_texts bds \<and> list_with_texts bds = Inr False
        \<and> texts d = Some ts \<and> text_feats d = Some tf"
  then show "text_source d bds = Inr (ts, Some tf)"
    by (simp add: text_source_def cached_def)
next
  assume ne: "bds \<noteq> BList []"
  show "text_source d bds = Inl TypeError
           \<longleftrightarrow> bds \<noteq> BNone \<and> \<not> dict_with_texts bds \<and> list_with_texts bds = Inr False
               \<and> text_feats d = None"
  proof (cases bds)
    case BNone
    then show ?thesis
      by (auto simp: text_source_def cached_def split: option.splits)
  next
    case (BDict kv)
    then show ?thesis
      by (auto simp: text_source_def cached_def dict_with_texts_def list_with_texts_def
          split: option.splits)
  next
    case (BList xs)
    with ne obtain y ys where xs: "xs = y # ys" by (cases xs) auto
    show ?thesis
    proof (cases "has_texts y")
      case True
      have "gather_texts xs \<noteq> Inl TypeError"
        using gather_texts_all [of xs] gather_texts_missing [of xs]
        by (cases "list_all has_texts xs") auto
      with True BList xs show ?thesis
        by (auto simp: text_source_def dict_with_texts_def list_with_texts_def has_texts_def
            split: sum.splits)
    next
      case False
      with BList xs show ?thesis
        by (auto simp: text_source_def cached_def dict_with_texts_def list_with_texts_def
            has_texts_def split: option.splits)
    qed
  next
    case BOther
    then show ?thesis
      by (auto simp: text_source_def cached_def dict_with_texts_def list_with_texts_def
          split: option.splits)
  qed
qed

text \<open>
  The seven cases at concrete inputs; in the third the mapping's texts win over the
  embeddings that \<open>det_cached\<close> holds.
\<close>

theorem text_source_priority_witness:
  "text_source det_cached (BNone :: nat batch_data_samples) = Inr ([[''cat'']], Some [[[1, 0]]])
   \<and> text_source det_plain (BNone :: nat batch_data_samples) = Inl AttributeError
   \<and> text_source det_cached (BDict [(''texts'', [[''dog'']])] :: nat batch_data_samples)
       = Inr ([[''dog'']], None)
   \<and> text_source det_cached (BList [sample_with, sample_with]) = Inr ([[''dog''], [''dog'']], None)
   \<and> text_source det_cached (BList [sample_with, sample_without]) = Inl AttributeError
   \<and> text_source det_cached (BOther :: nat batch_data_samples) = Inr ([[''cat'']], Some [[[1, 0]]])
   \<and> text_source det_plain (BOther :: nat batch_data_samples) = Inl TypeError"
proof (intro conjI)
  show "text_source det_cached (BNone :: nat batch_data_samples)
          = Inr ([[''cat'']], Some [[[1, 0]]])"
    using text_source_priority
      [where bds = "BNone :: nat batch_data_samples" and d = det_cached
         and ts = "[[''cat'']]" and tf = "[[[1, 0]]]"]
    by (simp add: det_cached_def)
  show "text_source det_plain (BNone :: nat batch_data_samples) = Inl AttributeError"
    using text_source_priority [where bds = "BNone :: nat batch_data_samples" and d = det_plain]
    by (simp add: det_plain_def)
  show "text_source det_cached (BDict [(''texts'', [[''dog'']])] :: nat batch_data_samples)
          = Inr ([[''dog'']], None)"
    using text_source_priority
      [where bds = "BDict [(''texts'', [[''dog'']])] :: nat batch_data_samples"
         and d = det_cached and kv = "[(''texts'', [[''dog'']])]" and ts = "[[''dog'']]"]
    by simp
  show "text_source det_cached (BList [sample_with, sample_with])
          = Inr ([[''dog''], [''dog'']], None)"
    using text_source_priority
      [where bds = "BList [sample_with, sample_with]" and d = det_cached
         and s = sample_with and ss = "[sample_with]"]
    by (simp add: has_texts_def sample_with_def)
  show "text_source det_cached (BList [sample_with, sample_without]) = Inl AttributeError"
    using text_source_priority
      [where bds = "BList [sample_with, sample_without]" and d = det_cached
         and s = sample_with and ss = "[sample_without]"]
    by (simp add: has_texts_def sample_with_def sample_without_def)
  show "text_source det_cached (BOther :: nat batch_data_samples)
          = Inr ([[''cat'']], Some [[[1, 0]]])"
    using text_source_priority
      [where bds = "BOther :: nat batch_data_samples" and d = det_cached
         and ts = "[[''cat'']]" and tf = "[[[1, 0]]]"]
    by (simp add: det_cached_def dict_with_texts_def list_with_texts_def)
  show "text_source det_plain (BOther :: nat batch_data_samples) = Inl TypeError"
    using text_source_priority [where bds = "BOther :: nat batch_data_samples" and d = det_plain]
    by (simp add: det_plain_def dict_with_texts_def list_with_texts_def)
qed

section \<open>\<open>predict\<close> and the calls to the backbone\<close>

text \<open>
  Claim C4. When feature extraction returns text features with a non-empty batch
  dimension, \<open>predict\<close> sets the head's \<open>num_classes\<close> to the number of classes of
  the first element of the text features, whatever \<open>num_test_classes\<close> was configured
  to be (\<open>k\<close> below); the head predicts with that count in place, and what
  \<open>add_pred_to_datasample\<close> makes of the samples and the head's results is returned.
\<close>

theorem predict_num_classes:
  assumes "extract_feat bb fw d batch_inputs bds = Inr (d1, img_feats, t0 # tfs)"
  shows "predict bb fw (d\<lparr>num_test_classes := k\<rparr>) batch_inputs bds rescale
           = Inr (d1\<lparr>num_test_classes := k, bbox_head_num_classes := length t0\<rparr>,
                  add_pred_to_datasample fw bds
                    (head_predict fw (length t0) img_feats (t0 # tfs) bds rescale))"
  using predict_of_extract [OF extract_feat_num_test_classes [OF assms]] by simp

text \<open>
  Three texts in the mapping and \<open>num_test_classes = 80\<close>: the head is left with three
  classes.
\<close>

theorem predict_num_classes_witness:
  "extract_feat backbone0 framework0 det_plain 7 (BDict [(''texts'', [[''a'', ''b'', ''c'']])])
     = Inr (det_plain\<lparr>calls := [CallForward [[''a'', ''b'', ''c'']]]\<rparr>, 8, [[[1, 0], [1, 0], [1, 0]]])
   \<and> predict backbone0 framework0 (det_plain\<lparr>num_test_classes := 80\<rparr>) 7
         (BDict [(''texts'', [[''a'', ''b'', ''c'']])]) True
       = Inr (det_plain\<lparr>calls := [CallForward [[''a'', ''b'', ''c'']]],
                num_test_classes := 80, bbox_head_num_classes := 3\<rparr>,
              BDict [(''texts'', [[''a'', ''b'', ''c'']])])"
proof -
  have e: "extract_feat backbone0 framework0 det_plain 7 (BDict [(''texts'', [[''a'', ''b'', ''c'']])])
     = Inr (det_plain\<lparr>calls := [CallForward [[''a'', ''b'', ''c'']]]\<rparr>, 8, [[[1, 0], [1, 0], [1, 0]]])"
    by (simp add: extract_feat_def text_source_def dict_with_texts_def det_plain_def
        backbone0_def framework0_def apply_neck_def)
  from predict_num_classes [OF e, of 80 True] e show ?thesis
    by (simp add: framework0_def)
qed

text \<open>
  Claim C5. When \<open>extract_feat\<close> uses the cached embeddings (no samples, or the
  fallback of the last branch), its one call to the backbone is \<open>forward_image\<close> and
  the text features are the cached ones; when the texts come from a mapping or from
  the samples, its one call is the joint call of the backbone, whose text features it
  returns. \<open>reparameterize\<close> followed by \<open>predict\<close> without samples hands the head
  the embeddings that \<open>reparameterize\<close> stored, and \<open>predict\<close> adds the single call
  \<open>forward_image\<close> to the calls of the backbone: no text is encoded.
\<close>

theorem extract_feat_backbone_calls:
  "(((bds = BNone \<or> (\<not> dict_with_texts bds \<and> list_with_texts bds = Inr False))
       \<and> texts d = Some ts \<and> text_feats d = Some tf)
      \<longrightarrow> extract_feat bb fw d batch_inputs bds
            = Inr (d\<lparr>calls := calls d @ [CallForwardImage]\<rparr>,
                   apply_neck fw d (forward_image bb batch_inputs) tf, tf))
   \<and> ((bds = BDict kv \<and> map_of kv ''texts'' = Some ts)
        \<or> (bds = BList (s # ss) \<and> has_texts s \<and> gather_texts (s # ss) = Inr ts)
      \<longrightarrow> extract_feat bb fw d batch_inputs bds
            = Inr (d\<lparr>calls := calls d @ [CallForward ts]\<rparr>,
                   apply_neck fw d (fst (forward bb batch_inputs ts))
                     (snd (forward bb batch_inputs ts)),
                   snd (forward bb batch_inputs ts)))
   \<and> (forward_text bb ts \<noteq> []
      \<longrightarrow> (\<exists>d'.
             predict bb fw (reparameterize bb d ts) batch_inputs BNone rescale
               = Inr (d', add_pred_to_datasample fw BNone
                            (head_predict fw (length (hd (forward_text bb ts)))
                               (apply_neck fw d (forward_image bb batch_inputs)
                                  (forward_text bb ts))
                               (forward_text bb ts) BNone rescale))
             \<and> text_feats d' = Some (forward_text bb ts)
             \<and> calls d' = calls (reparameterize bb d ts) @ [CallForwardImage]))"
proof (intro conjI impI)
  assume a: "(bds = BNone \<or> (\<not> dict_with_texts bds \<and> list_with_texts bds = Inr False))
       \<and> texts d = Some ts \<and> text_feats d = Some tf"
  then have "text_source d bds = Inr (ts, Some tf)"
    by (auto simp: text_source_def cached_def)
  then show "extract_feat bb fw d batch_inputs bds
            = Inr (d\<lparr>calls := calls d @ [CallForwardImage]\<rparr>,
                   apply_neck fw d (forward_image bb batch_inputs) tf, tf)"
    by (simp add: extract_feat_def)
next
  assume a: "(bds = BDict kv \<and> map_of kv ''texts'' = Some ts)
        \<or> (bds = BList (s # ss) \<and> has_texts s \<and> gather_texts (s # ss) = Inr ts)"
  then have "text_source d bds = Inr (ts, None)"
    by (auto simp: text_source_def dict_with_texts_def list_with_texts_def has_texts_def)
  then show "extract_feat bb fw d batch_inputs bds
            = Inr (d\<lparr>calls := calls d @ [CallForward ts]\<rparr>,
                   apply_neck fw d (fst (forward bb batch_inputs ts))
                     (snd (forward bb batch_inputs ts)),
                   snd (forward bb batch_inputs ts))"
    by (simp add: extract_feat_def split: prod.splits)
next
  assume ne: "forward_text bb ts \<noteq> []"
  then obtain t0 tfs where tf: "forward_text bb ts = t0 # tfs"
    by (cases "forward_text bb ts") auto
  let ?d = "reparameterize bb d ts"
  have src: "text_source ?d BNone = Inr (ts, Some (forward_text bb ts))"
    by (simp add: text_source_def cached_def reparameterize_def)
  have e: "extract_feat bb fw ?d batch_inputs BNone
             = Inr (?d\<lparr>calls := calls ?d @ [CallForwardImage]\<rparr>,
                    apply_neck fw d (forward_image bb batch_inputs) (forward_text bb ts),
                    t0 # tfs)"
    by (simp add: extract_feat_def src apply_neck_reparameterize tf)
  have t: "text_feats ?d = Some (forward_text bb ts)"
    by (simp add: reparameterize_def)
  from predict_of_extract [OF e, of rescale] t
  show "\<exists>d'.
             predict bb fw (reparameterize bb d ts) batch_inputs BNone rescale
               = Inr (d', add_pred_to_datasample fw BNone
                            (head_predict fw (length (hd (forward_text bb ts)))
                               (apply_neck fw d (forward_image bb batch_inputs)
                                  (forward_text bb ts))
                               (forward_text bb ts) BNone rescale))
             \<and> text_feats d' = Some (forward_text bb ts)
             \<and> calls d' = calls (reparameterize bb d ts) @ [CallForwardImage]"
    by (simp add: tf)
qed

text \<open>
  Both cached cases, both encoding cases, and \<open>reparameterize\<close> followed by
  \<open>predict\<close>, with \<open>backbone0\<close>: the only text encoding is the one of
  \<open>reparameterize\<close>.
\<close>

theorem extract_feat_backbone_calls_witness:
  "extract_feat backbone0 framework0 det_cached 7 (BNone :: nat batch_data_samples)
     = Inr (det_cached\<lparr>calls := [CallForwardImage]\<rparr>, 8, [[[1, 0]]])
   \<and> extract_feat backbone0 framework0 det_cached 7 (BOther :: nat batch_data_samples)
     = Inr (det_cached\<lparr>calls := [CallForwardImage]\<rparr>, 8, [[[1, 0]]])
   \<and> extract_feat backbone0 framework0 det_cached 7
         (BDict [(''texts'', [[''dog'']])] :: nat batch_data_samples)
     = Inr (det_cached\<lparr>calls := [CallForward [[''dog'']]]\<rparr>, 8, [[[1, 0]]])
   \<and> extract_feat backbone0 framework0 det_cached 7 (BList [sample_with])
     = Inr (det_cached\<lparr>calls := [CallForward [[''dog'']]]\<rparr>, 8, [[[1, 0]]])
   \<and> (\<exists>d'. predict backbone0 framework0 (reparameterize backbone0 det_plain [[''a'', ''b'']]) 7
               (BNone :: nat batch_data_samples) True = Inr (d', BNone)
            \<and> text_feats d' = Some [[[1, 0], [1, 0]]]
            \<and> calls d' = [CallForwardText [[''a'', ''b'']], CallForwardImage])"
proof (intro conjI)
  show "extract_feat backbone0 framework0 det_cached 7 (BNone :: nat batch_data_samples)
     = Inr (det_cached\<lparr>calls := [CallForwardImage]\<rparr>, 8, [[[1, 0]]])"
    using extract_feat_backbone_calls
      [where bds = "BNone :: nat batch_data_samples" and d = det_cached and ts = "[[''cat'']]"
         and tf = "[[[1, 0]]]" and bb = backbone0 and fw = framework0 and batch_inputs = 7]
    by (simp add: det_cached_def apply_neck_def backbone0_def)
  show "extract_feat backbone0 framework0 det_cached 7 (BOther :: nat batch_data_samples)
     = Inr (det_cached\<lparr>calls := [CallForwardImage]\<rparr>, 8, [[[1, 0]]])"
    using extract_feat_backbone_calls
      [where bds = "BOther :: nat batch_data_samples" and d = det_cached and ts = "[[''cat'']]"
         and tf = "[[[1, 0]]]" and bb = backbone0 and fw = framework0 and batch_inputs = 7]
    by (simp add: det_cached_def apply_neck_def backbone0_def dict_with_texts_def
        list_with_texts_def)
  show "extract_feat backbone0 framework0 det_cached 7
         (BDict [(''texts'', [[''dog'']])] :: nat batch_data_samples)
     = Inr (det_cached\<lparr>calls := [CallForward [[''dog'']]]\<rparr>, 8, [[[1, 0]]])"
    using extract_feat_backbone_calls
      [where bds = "BDict [(''texts'', [[''dog'']])] :: nat batch_data_samples"
         and d = det_cached and kv = "[(''texts'', [[''dog'']])]" and ts = "[[''dog'']]"
         and bb = backbone0 and fw = framework0 and batch_inputs = 7]
    by (simp add: det_cached_def apply_neck_def backbone0_def)
  show "extract_feat backbone0 framework0 det_cached 7 (BList [sample_with])
     = Inr (det_cached\<lparr>calls := [CallForward [[''dog'']]]\<rparr>, 8, [[[1, 0]]])"
    using extract_feat_backbone_calls
      [where bds = "BList [sample_with]" and d = det_cached and s = sample_with and ss = "[]"
         and ts = "[[''dog'']]" and bb = backbone0 and fw = framework0 and batch_inputs = 7]
    by (simp add: det_cached_def apply_neck_def backbone0_def has_texts_def sample_with_def)
  show "\<exists>d'. predict backbone0 framework0 (reparameterize backbone0 det_plain [[''a'', ''b'']]) 7
               (BNone :: nat batch_data_samples) True = Inr (d', BNone)
            \<and> text_feats d' = Some [[[1, 0], [1, 0]]]
            \<and> calls d' = [CallForwardText [[''a'', ''b'']], CallForwardImage]"
    using extract_feat_backbone_calls
      [where bb = backbone0 and ts = "[[''a'', ''b'']]" and fw = framework0 and d = det_plain
         and batch_inputs = 7 and rescale = True]
    by (simp add: backbone0_def framework0_def reparameterize_def det_plain_def)
qed

section \<open>The class-embedding query: mean of the heads\<close>

text \<open>
  Claim C2. Without \<open>scale_logits\<close>, for any texts the routine accepts, at least one
  head and head maps of one shape with at least one class, the call returns; its logit
  map is, entry by entry, the sum over the heads of the sigmoid of the head's raw logit
  divided by the number of heads; the scores are the largest entry of every location
  over the classes and the labels an index of a class that holds it.
\<close>

theorem query_cls_embed_mean:
  assumes tf: "query_txt_feats encode txts = Inr txt_feats"
    and heads: "cls_contrasts \<noteq> []"
    and C: "0 < C"
    and shapes:
      "list_all (\<lambda>h. has_shape C V (cls_logit_of h pre_normalized cls_embed txt_feats))
         cls_contrasts"
  shows "\<exists>scores labels L.
      query_cls_embed encode cls_contrasts txts cls_embed None consider_uncertainty
          pre_normalized = Inr (scores, labels, L)
      \<and> has_shape C V L
      \<and> (\<forall>c<C. \<forall>v<V. L ! c ! v =
            (\<Sum>h<length cls_contrasts.
                sigmoid (cls_logit_of (cls_contrasts ! h) pre_normalized cls_embed txt_feats
                           ! c ! v))
              / real (length cls_contrasts))
      \<and> length scores = V \<and> length labels = V
      \<and> (\<forall>v<V. scores ! v = Max ((\<lambda>c. L ! c ! v) ` {..<C})
               \<and> labels ! v < C \<and> L ! (labels ! v) ! v = scores ! v)"
proof -
  let ?S = "head_logits cls_contrasts pre_normalized cls_embed txt_feats"
  let ?L = "mean_dim0 ?S"
  have Sne: "?S \<noteq> []" using heads by (simp add: head_logits_def)
  have Slen: "length ?S = length cls_contrasts" by (simp add: head_logits_def)
  have Ssh: "list_all (has_shape C V) ?S"
    using shapes by (simp add: head_logits_def list_all_length has_shape_def)
  have Snth: "?S ! h ! c ! v
      = sigmoid (cls_logit_of (cls_contrasts ! h) pre_normalized cls_embed txt_feats ! c ! v)"
    if "h < length cls_contrasts" "c < C" "v < V" for h c v
    using that shapes by (simp add: head_logits_def list_all_length has_shape_def)
  have comb: "combine ?S None = Inr ?L"
    using Sne by (simp add: combine_def stack_def)
  have Lsh: "has_shape C V ?L" using mean_dim0_shape [OF Sne Ssh] .
  have Lnth: "?L ! c ! v =
            (\<Sum>h<length cls_contrasts.
                sigmoid (cls_logit_of (cls_contrasts ! h) pre_normalized cls_embed txt_feats
                           ! c ! v))
              / real (length cls_contrasts)" if "c < C" "v < V" for c v
    using mean_dim0_nth [OF Sne Ssh that] that by (simp add: Slen Snth)
  from max_dim0_correct [OF Lsh C] obtain scores labels where
    mx: "max_dim0 ?L = Inr (scores, labels)" and
    rest: "length scores = V" "length labels = V"
      "\<forall>v<V. scores ! v = Max ((\<lambda>c. ?L ! c ! v) ` {..<C})
               \<and> labels ! v < C \<and> ?L ! (labels ! v) ! v = scores ! v"
    by blast
  have "query_cls_embed encode cls_contrasts txts cls_embed None consider_uncertainty
          pre_normalized = Inr (scores, labels, ?L)"
    by (simp add: query_cls_embed_def tf comb mx)
  with Lsh Lnth rest show ?thesis by blast
qed

theorem query_cls_embed_mean_witness:
  "query_txt_feats (\<lambda>_. []) (TextTensor [[1]]) = Inr [[[1]]]
   \<and> [head_a, head_b] \<noteq> []
   \<and> (0::nat) < 2
   \<and> list_all (\<lambda>h. has_shape 2 2 (cls_logit_of h True () [[[1]]])) [head_a, head_b]
   \<and> query_cls_embed (\<lambda>_. []) [head_a, head_b] (TextTensor [[1]]) () None False True
       = Inr ([3 / 4, 5 / 8], [1, 0], [[1 / 2, 5 / 8], [3 / 4, 5 / 8]])"
proof -
  have h1: "query_txt_feats (\<lambda>_. []) (TextTensor [[1]]) = Inr [[[1]]]"
    by (simp add: query_txt_feats_def)
  have h2: "[head_a, head_b] \<noteq> []" by simp
  have h3: "(0::nat) < 2" by simp
  have h4: "list_all (\<lambda>h. has_shape 2 2 (cls_logit_of h True () [[[1]]])) [head_a, head_b]"
    by (simp add: has_shape_def cls_logit_of_def head_a_def head_b_def)
  from query_cls_embed_mean [OF h1 h2 h3 h4, of False]
  obtain scores labels L where
    q: "query_cls_embed (\<lambda>_. []) [head_a, head_b] (TextTensor [[1]]) () None False True
          = Inr (scores, labels, L)"
    by blast
  have "query_cls_embed (\<lambda>_. []) [head_a, head_b] (TextTensor [[1]]) () None False True
       = Inr ([3 / 4, 5 / 8], [1, 0], [[1 / 2, 5 / 8], [3 / 4, 5 / 8]])"
    by (simp add: query_cls_embed_def query_txt_feats_def head_logits_def cls_logit_of_def
        combine_def stack_def mean_dim0_def add2_def add1_def max_dim0_def permute_10_def
        max_index_def max_step_def head_a_def head_b_def sigmoid_values)
  with h1 h2 h3 h4 q show ?thesis by simp
qed

section \<open>The class-embedding query: the flag and the assertion\<close>

text \<open>
  Claim C6. Two calls of \<open>query_cls_embed\<close> that differ in \<open>consider_uncertainty\<close>
  only return the same scores, labels and logit map (or the same error): the flag has
  no part in the combination, with or without \<open>scale_logits\<close>.
\<close>

theorem query_cls_embed_consider_uncertainty:
  "query_cls_embed encode cls_contrasts txts cls_embed scale_logits True pre_normalized
     = query_cls_embed encode cls_contrasts txts cls_embed scale_logits False pre_normalized"
  by (simp add: query_cls_embed_def)

text \<open>
  Claim C8 as it is worded fails: a list whose first element is a string and whose
  second is not passes the assertion, is handed to the text encoder as it is, and the
  call goes on to score the classes.
\<close>

theorem query_cls_embed_unchecked_element:
  "query_cls_embed (\<lambda>_. []) [head_a] (TextList [PStr ''cat'', PInt 5]) () None False True
     = Inr ([3 / 4, 3 / 4], [1, 0], [[1 / 2, 3 / 4], [3 / 4, 1 / 2]])"
  by (simp add: query_cls_embed_def query_txt_feats_def head_logits_def cls_logit_of_def
        combine_def stack_def mean_dim0_def add2_def add1_def max_dim0_def permute_10_def
        max_index_def max_step_def head_a_def sigmoid_values)

text \<open>
  Claim C8, amended. For \<open>texts\<close> given as a list, \<open>query_cls_embed\<close> fails with an
  assertion error exactly when the list is not empty and its first element is not a
  string, whatever the encoder and the heads are: the failure comes before any text is
  encoded and any similarity computed. Elements after the first are not looked at.
\<close>

theorem query_cls_embed_assertion:
  "query_cls_embed encode cls_contrasts (TextList ts) cls_embed scale_logits
       consider_uncertainty pre_normalized = Inl AssertionError
     \<longleftrightarrow> ts \<noteq> [] \<and> \<not> is_str (hd ts)"
proof (cases ts)
  case Nil
  then show ?thesis by (simp add: query_cls_embed_def query_txt_feats_def)
next
  case (Cons t ts')
  show ?thesis
  proof (cases "is_str t")
    case False
    with Cons show ?thesis by (simp add: query_cls_embed_def query_txt_feats_def)
  next
    case True
    with Cons show ?thesis
      using combine_not_assertion max_dim0_not_assertion
      by (auto simp: query_cls_embed_def query_txt_feats_def split: sum.splits)
  qed
qed

text \<open>A list whose first element is an integer.\<close>

theorem query_cls_embed_assertion_witness:
  "query_cls_embed (\<lambda>_. []) [head_a] (TextList [PInt 5, PStr ''cat'']) () None False True
     = Inl AssertionError"
  using query_cls_embed_assertion
    [of "\<lambda>_. []" "[head_a]" "[PInt 5, PStr ''cat'']" "()" None False True]
  by simp

section \<open>The class-embedding query: the weighted combination\<close>

text \<open>
  Claim C1. With \<open>scale_logits\<close> supplied (one row per location: a weight per head,
  then the uncertainty), for any texts the routine accepts, at least one head, head
  maps of one shape with at least one class and one location, the call returns, and
  its logit map is, entry by entry, the sum over the heads of the head's sigmoid logit
  times the weight of that head at that location. The weight is the given one where
  the uncertainty is at least \<open>0.5\<close>; where it is below, it is the given one divided
  by the sum of the location's weights plus \<open>1e-12\<close>, so that the weights of such a
  location add up to their former sum \<open>s\<close> divided by \<open>s + 1e-12\<close>.
\<close>

theorem query_cls_embed_scale:
  assumes tf: "query_txt_feats encode txts = Inr txt_feats"
    and heads: "cls_contrasts \<noteq> []"
    and C: "0 < C" and V: "0 < V"
    and shapes:
      "list_all (\<lambda>h. has_shape C V (cls_logit_of h pre_normalized cls_embed txt_feats))
         cls_contrasts"
    and sl: "has_shape V (Suc (length cls_contrasts)) sl"
    and nz: "nonzero_denominators sl"
  shows "\<exists>scores labels L.
      query_cls_embed encode cls_contrasts txts cls_embed (Some sl) consider_uncertainty
          pre_normalized = Inr (scores, labels, L)
      \<and> has_shape C V L
      \<and> (\<forall>c<C. \<forall>v<V. L ! c ! v =
            (\<Sum>h<length cls_contrasts.
                sigmoid (cls_logit_of (cls_contrasts ! h) pre_normalized cls_embed txt_feats
                           ! c ! v)
                * spec_mix_weight sl v h))
      \<and> (\<forall>v<V. (\<Sum>h<length cls_contrasts. spec_mix_weight sl v h)
                 = (if last (sl ! v) < 1 / 2
                    then (\<Sum>h<length cls_contrasts. sl ! v ! h)
                           / ((\<Sum>h<length cls_contrasts. sl ! v ! h) + 1 / 10 ^ 12)
                    else (\<Sum>h<length cls_contrasts. sl ! v ! h)))"
proof -
  let ?H = "length cls_contrasts"
  let ?S = "head_logits cls_contrasts pre_normalized cls_embed txt_feats"
  have Sne: "?S \<noteq> []" using heads by (simp add: head_logits_def)
  have Slen: "length ?S = ?H" by (simp add: head_logits_def)
  have Ssh: "list_all (has_shape C V) ?S"
    using shapes by (simp add: head_logits_def list_all_length has_shape_def)
  have Snth: "?S ! h ! c ! v
      = sigmoid (cls_logit_of (cls_contrasts ! h) pre_normalized cls_embed txt_feats ! c ! v)"
    if "h < ?H" "c < C" "v < V" for h c v
    using that shapes by (simp add: head_logits_def list_all_length has_shape_def)
  have sl': "has_shape V (Suc (length ?S)) sl" using sl by (simp add: Slen)
  from combine_scale [OF Sne Ssh C V sl'] obtain L where
    comb: "combine ?S (Some sl) = Inr L" and Lsh: "has_shape C V L" and
    Lnth: "\<forall>c<C. \<forall>v<V. L ! c ! v = (\<Sum>h<length ?S. ?S ! h ! c ! v * spec_mix_weight sl v h)"
    by blast
  have Lnth': "L ! c ! v =
            (\<Sum>h<?H. sigmoid (cls_logit_of (cls_contrasts ! h) pre_normalized cls_embed
                                 txt_feats ! c ! v)
                * spec_mix_weight sl v h)" if "c < C" "v < V" for c v
  proof -
    have "L ! c ! v = (\<Sum>h<?H. ?S ! h ! c ! v * spec_mix_weight sl v h)"
      using Lnth that by (simp add: Slen)
    also have "\<dots> = (\<Sum>h<?H. sigmoid (cls_logit_of (cls_contrasts ! h) pre_normalized
                                         cls_embed txt_feats ! c ! v)
                * spec_mix_weight sl v h)"
      by (rule sum.cong) (simp_all add: Snth that)
    finally show ?thesis .
  qed
  have wsum: "(\<Sum>h<?H. spec_mix_weight sl v h)
                 = (if last (sl ! v) < 1 / 2
                    then (\<Sum>h<?H. sl ! v ! h) / ((\<Sum>h<?H. sl ! v ! h) + 1 / 10 ^ 12)
                    else (\<Sum>h<?H. sl ! v ! h))" if "v < V" for v
  proof -
    have "length (sl ! v) - 1 = ?H"
      using sl that by (simp add: has_shape_def list_all_length)
    then show ?thesis
      by (simp add: spec_mix_weight_def sum_divide_distrib)
  qed
  from max_dim0_correct [OF Lsh C] obtain scores labels where
    mx: "max_dim0 L = Inr (scores, labels)" by blast
  have "query_cls_embed encode cls_contrasts txts cls_embed (Some sl) consider_uncertainty
          pre_normalized = Inr (scores, labels, L)"
    by (simp add: query_cls_embed_def tf comb mx)
  with Lsh Lnth' wsum show ?thesis by blast
qed

text \<open>
  Two heads, two classes, two locations: the first location is supervised (its weights
  \<open>1\<close> and \<open>3\<close> are divided by \<open>4 + 1e-12\<close>), the second is uncertain (its
  weights are used as they are).
\<close>

theorem query_cls_embed_scale_witness:
  "query_txt_feats (\<lambda>_. []) (TextTensor [[1]]) = Inr [[[1]]]
   \<and> [head_a, head_b] \<noteq> []
   \<and> (0::nat) < 2
   \<and> list_all (\<lambda>h. has_shape 2 2 (cls_logit_of h True () [[[1]]])) [head_a, head_b]
   \<and> has_shape 2 (Suc (length [head_a, head_b])) [[1, 3, 0], [1, 3, 1]]
   \<and> nonzero_denominators [[1, 3, 0], [1, 3, 1]]
   \<and> query_cls_embed (\<lambda>_. []) [head_a, head_b] (TextTensor [[1]]) ()
         (Some [[1, 3, 0], [1, 3, 1]]) False True
       = Inr ([3 / (4 + 1 / 10 ^ 12), 11 / 4], [1, 1],
              [[2 / (4 + 1 / 10 ^ 12), 9 / 4], [3 / (4 + 1 / 10 ^ 12), 11 / 4]])"
proof -
  have h1: "query_txt_feats (\<lambda>_. []) (TextTensor [[1]]) = Inr [[[1]]]"
    by (simp add: query_txt_feats_def)
  have h2: "[head_a, head_b] \<noteq> []" by simp
  have h3: "(0::nat) < 2" by simp
  have h4: "list_all (\<lambda>h. has_shape 2 2 (cls_logit_of h True () [[[1]]])) [head_a, head_b]"
    by (simp add: has_shape_def cls_logit_of_def head_a_def head_b_def)
  have h5: "has_shape 2 (Suc (length [head_a, head_b])) [[1, 3, 0], [1, 3, 1]]"
    by (simp add: has_shape_def)
  have h6: "nonzero_denominators [[1, 3, 0], [1, 3, 1]]"
    by (simp add: nonzero_denominators_def)
  from query_cls_embed_scale [OF h1 h2 h3 h3 h4 h5 h6, of False]
  obtain scores labels L where
    q: "query_cls_embed (\<lambda>_. []) [head_a, head_b] (TextTensor [[1]]) ()
          (Some [[1, 3, 0], [1, 3, 1]]) False True = Inr (scores, labels, L)"
    by blast
  have "query_cls_embed (\<lambda>_. []) [head_a, head_b] (TextTensor [[1]]) ()
         (Some [[1, 3, 0], [1, 3, 1]]) False True
       = Inr ([3 / (4 + 1 / 10 ^ 12), 11 / 4], [1, 1],
              [[2 / (4 + 1 / 10 ^ 12), 9 / 4], [3 / (4 + 1 / 10 ^ 12), 11 / 4]])"
    by (simp add: query_cls_embed_def query_txt_feats_def head_logits_def cls_logit_of_def
        combine_def stack_def add1_def max_dim0_def permute_10_def max_index_def max_step_def
        head_a_def head_b_def sigmoid_values permute_201_def renormalize_def sum_dim1_def
        mul_last_def)
  with h1 h2 h3 h4 h5 h6 q show ?thesis by simp
qed

section \<open>The prompt-driven detector: adapter and normalisation\<close>

text \<open>
  Claim C7 as it is worded fails: with an adapter whose weights and biases are zero
  (the parameters are trainable and loadable state) and a table with a zero row, the
  residual sum of that row is the zero vector, the normalisation divides it by
  \<open>1e-12\<close>, and the text feature is the zero vector, of norm \<open>0\<close>.
\<close>

theorem prompt_extract_feat_zero_row:
  "use_mlp_adapter det_zero_row
   \<and> adapter det_zero_row = Some adapter_zero
   \<and> snd (prompt_extract_feat (\<lambda>x. x) (\<lambda>_. 1) framework0 det_zero_row (7::nat))
       = [[[0, 0], [1, 0]]]
   \<and> l2_norm (snd (prompt_extract_feat (\<lambda>x. x) (\<lambda>_. 1) framework0 det_zero_row (7::nat))
                ! 0 ! 0) = 0"
  by (simp add: prompt_extract_feat_def prompt_txt_feats_def det_zero_row_def det_file_def
      refine_def adapter_forward_def adapter_zero_def linear_forward_def dot_def relu_def
      add1_def normalize_l2_def l2_norm_def)

text \<open>
  Claim C7, amended. A detector constructed with \<open>use_mlp_adapter=True\<close> has an
  adapter of two linear layers, from the prompt dimension to twice the prompt dimension
  and back, with a ReLU between them. For a detector with an adapter whose layers and
  table have these sizes, the text features of \<open>extract_feat\<close> are, once per element
  of the image batch, the table in which every embedding is replaced by the normalised
  sum of the adapter's output and the embedding itself; every such vector has the
  prompt dimension, and it has Euclidean norm \<open>1\<close> whenever the sum it is normalised
  from has norm at least \<open>1e-12\<close>.
\<close>

theorem prompt_extract_feat_adapter:
  "(prompt_init env kw neck_given = Inr d0 \<and> kw_use_mlp_adapter kw
      \<longrightarrow> (\<exists>a0. adapter d0 = Some a0
             \<and> in_features (fc1 a0) = prompt_dim d0
             \<and> out_features (fc1 a0) = prompt_dim d0 * 2
             \<and> in_features (fc2 a0) = prompt_dim d0 * 2
             \<and> out_features (fc2 a0) = prompt_dim d0))
   \<and> (adapter d = Some a \<and> adapter_shaped (prompt_dim d) a
        \<and> list_all (\<lambda>e. length e = prompt_dim d) (embeddings d)
      \<longrightarrow> snd (prompt_extract_feat image_features batch_size fw d batch_inputs)
            = replicate (batch_size (image_features batch_inputs))
                (map (\<lambda>e. normalize_l2
                             (add1 (linear_forward (fc2 a)
                                      (map relu (linear_forward (fc1 a) e))) e))
                   (embeddings d))
          \<and> (\<forall>b<batch_size (image_features batch_inputs). \<forall>n<length (embeddings d).
                length (snd (prompt_extract_feat image_features batch_size fw d batch_inputs)
                          ! b ! n) = prompt_dim d
                \<and> (1 / 10 ^ 12
                      \<le> l2_norm (add1 (adapter_forward a (embeddings d ! n)) (embeddings d ! n))
                    \<longrightarrow> l2_norm (snd (prompt_extract_feat image_features batch_size fw d
                                         batch_inputs) ! b ! n) = 1)))"
proof (intro conjI impI)
  assume "prompt_init env kw neck_given = Inr d0 \<and> kw_use_mlp_adapter kw"
  then show "\<exists>a0. adapter d0 = Some a0
             \<and> in_features (fc1 a0) = prompt_dim d0
             \<and> out_features (fc1 a0) = prompt_dim d0 * 2
             \<and> in_features (fc2 a0) = prompt_dim d0 * 2
             \<and> out_features (fc2 a0) = prompt_dim d0"
    by (auto simp: prompt_init_def nn_Linear_def split: sum.splits)
next
  assume a: "adapter d = Some a \<and> adapter_shaped (prompt_dim d) a
        \<and> list_all (\<lambda>e. length e = prompt_dim d) (embeddings d)"
  have t: "snd (prompt_extract_feat image_features batch_size fw d batch_inputs)
             = replicate (batch_size (image_features batch_inputs))
                 (map (refine a) (embeddings d))"
    using a by (simp add: prompt_extract_feat_def Let_def prompt_txt_feats_adapter)
  then show "snd (prompt_extract_feat image_features batch_size fw d batch_inputs)
            = replicate (batch_size (image_features batch_inputs))
                (map (\<lambda>e. normalize_l2
                             (add1 (linear_forward (fc2 a)
                                      (map relu (linear_forward (fc1 a) e))) e))
                   (embeddings d))"
    by (simp add: refine_def adapter_forward_def)
  show "\<forall>b<batch_size (image_features batch_inputs). \<forall>n<length (embeddings d).
                length (snd (prompt_extract_feat image_features batch_size fw d batch_inputs)
                          ! b ! n) = prompt_dim d
                \<and> (1 / 10 ^ 12
                      \<le> l2_norm (add1 (adapter_forward a (embeddings d ! n)) (embeddings d ! n))
                    \<longrightarrow> l2_norm (snd (prompt_extract_feat image_features batch_size fw d
                                         batch_inputs) ! b ! n) = 1)"
  proof (intro allI impI conjI)
    fix b n
    assume b: "b < batch_size (image_features batch_inputs)" and n: "n < length (embeddings d)"
    have len: "length (embeddings d ! n) = prompt_dim d"
      using a n by (simp add: list_all_length)
    have v: "snd (prompt_extract_feat image_features batch_size fw d batch_inputs) ! b ! n
               = refine a (embeddings d ! n)"
      using b n by (simp add: t)
    show "length (snd (prompt_extract_feat image_features batch_size fw d batch_inputs)
                          ! b ! n) = prompt_dim d"
      unfolding v using a len by (simp add: length_refine)
    assume "1 / 10 ^ 12
              \<le> l2_norm (add1 (adapter_forward a (embeddings d ! n)) (embeddings d ! n))"
    then show "l2_norm (snd (prompt_extract_feat image_features batch_size fw d
                                         batch_inputs) ! b ! n) = 1"
      unfolding v refine_def by (rule normalize_l2_unit)
  qed
qed

text \<open>
  The detector that \<open>kw_file\<close> constructs, and \<open>det_adapter\<close> on a batch of two
  images: the first embedding \<open>[3, 4]\<close> becomes \<open>[6, 8]\<close>, of norm \<open>10\<close>, and is
  normalised to \<open>[3/5, 4/5]\<close>.
\<close>

theorem prompt_extract_feat_adapter_witness:
  "prompt_init env_file kw_file True = Inr det_file
   \<and> kw_use_mlp_adapter kw_file
   \<and> adapter det_file = Some adapter_zero
   \<and> in_features (fc1 adapter_zero) = 2 \<and> out_features (fc1 adapter_zero) = 4
   \<and> in_features (fc2 adapter_zero) = 4 \<and> out_features (fc2 adapter_zero) = 2
   \<and> adapter det_adapter = Some adapter_relu
   \<and> adapter_shaped (prompt_dim det_adapter) adapter_relu
   \<and> list_all (\<lambda>e. length e = prompt_dim det_adapter) (embeddings det_adapter)
   \<and> 1 / 10 ^ 12 \<le> l2_norm (add1 (adapter_forward adapter_relu [3, 4]) [3, 4])
   \<and> snd (prompt_extract_feat (\<lambda>x. x) (\<lambda>_. 2) framework0 det_adapter (7::nat))
       = [[[3 / 5, 4 / 5], [0, 1]], [[3 / 5, 4 / 5], [0, 1]]]
   \<and> l2_norm (snd (prompt_extract_feat (\<lambda>x. x) (\<lambda>_. 2) framework0 det_adapter (7::nat))
                ! 1 ! 0) = 1"
proof -
  have i: "prompt_init env_file kw_file True = Inr det_file"
    by (simp add: prompt_init_def init_embeddings_def env_file_def kw_file_def det_file_def
        adapter_zero_def nn_Linear_def numeral_eq_Suc)
  have u: "kw_use_mlp_adapter kw_file" by (simp add: kw_file_def)
  have z: "adapter det_file = Some adapter_zero
     \<and> in_features (fc1 adapter_zero) = 2 \<and> out_features (fc1 adapter_zero) = 4
     \<and> in_features (fc2 adapter_zero) = 4 \<and> out_features (fc2 adapter_zero) = 2"
    using prompt_extract_feat_adapter [THEN conjunct1, of env_file kw_file True det_file] i u
    by (simp add: det_file_def)
  have a: "adapter det_adapter = Some adapter_relu"
    by (simp add: det_adapter_def)
  have s: "adapter_shaped (prompt_dim det_adapter) adapter_relu"
    by (simp add: adapter_shaped_def linear_shaped_def has_shape_def adapter_relu_def
        det_adapter_def det_file_def)
  have e: "list_all (\<lambda>e. length e = prompt_dim det_adapter) (embeddings det_adapter)"
    by (simp add: det_adapter_def det_file_def)
  have n: "1 / 10 ^ 12 \<le> l2_norm (add1 (adapter_forward adapter_relu [3, 4]) [3, 4])"
    by (simp add: adapter_forward_def adapter_relu_def linear_forward_def dot_def relu_def
        add1_def l2_norm_def sqrt_100)
  have emb: "embeddings det_adapter ! 0 = [3, 4]" "length (embeddings det_adapter) = 2"
    by (simp_all add: det_adapter_def det_file_def)
  have "\<forall>b<2. \<forall>n<length (embeddings det_adapter).
          length (snd (prompt_extract_feat (\<lambda>x. x) (\<lambda>_. 2) framework0 det_adapter (7::nat))
                    ! b ! n) = prompt_dim det_adapter
          \<and> (1 / 10 ^ 12
                \<le> l2_norm (add1 (adapter_forward adapter_relu (embeddings det_adapter ! n))
                             (embeddings det_adapter ! n))
              \<longrightarrow> l2_norm (snd (prompt_extract_feat (\<lambda>x. x) (\<lambda>_. 2) framework0 det_adapter
                                   (7::nat)) ! b ! n) = 1)"
    using prompt_extract_feat_adapter
      [THEN conjunct2, of det_adapter adapter_relu "\<lambda>x. x" "\<lambda>_. 2" framework0 "7::nat"]
      a s e
    by blast
  from this [rule_format, of 1 0] emb n
  have unit: "l2_norm (snd (prompt_extract_feat (\<lambda>x. x) (\<lambda>_. 2) framework0 det_adapter
                             (7::nat)) ! 1 ! 0) = 1"
    by simp
  have v: "snd (prompt_extract_feat (\<lambda>x. x) (\<lambda>_. 2) framework0 det_adapter (7::nat))
       = [[[3 / 5, 4 / 5], [0, 1]], [[3 / 5, 4 / 5], [0, 1]]]"
    by (simp add: prompt_extract_feat_def prompt_txt_feats_def det_adapter_def det_file_def
        refine_def adapter_forward_def adapter_relu_def linear_forward_def dot_def relu_def
        add1_def normalize_l2_def l2_norm_def sqrt_100 numeral_eq_Suc)
  from i u z a s e n v unit show ?thesis by simp
qed

section \<open>The prompt-driven detector: the embedding file\<close>

text \<open>
  Claim C9 as it is worded fails: the constructor converts the loaded array with
  \<open>.float()\<close>. A file that stores the double-precision value \<open>1 + 2^-30\<close> gives a
  table that holds \<open>1\<close> in its place, so the table is not the array of the file.
\<close>

theorem prompt_init_double_precision_file:
  "0 < length (kw_embedding_path kw_file)
   \<and> np_load env_double (kw_embedding_path kw_file)
       = Inr [[1073741825 / 1073741824, 0], [0, 1]]
   \<and> prompt_init env_double kw_file True = Inr det_double
   \<and> embeddings det_double = [[1, 0], [0, 1]]
   \<and> embeddings det_double \<noteq> [[1073741825 / 1073741824, 0], [0, 1]]"
  by (simp add: prompt_init_def init_embeddings_def env_double_def env_file_def kw_file_def
      det_double_def det_file_def adapter_zero_def nn_Linear_def numeral_eq_Suc
      float32_values)

text \<open>
  Claim C9, amended. With a non-empty \<open>embedding_path\<close> at which \<open>np.load\<close> finds
  an array, construction succeeds and the embedding table holds the values of that
  array converted to single precision by \<open>.float()\<close>; the random draws have no part
  in it (\<open>r\<close>, \<open>w\<close> and \<open>b\<close> below are any other draws); and the table is exactly
  the array of the file if and only if the conversion leaves every stored value as it
  is, that is, the file holds single-precision values.
\<close>

theorem prompt_init_loads_file:
  assumes "0 < length (kw_embedding_path kw)"
    and "np_load env (kw_embedding_path kw) = Inr arr"
  shows "\<exists>d d'. prompt_init env kw neck_given = Inr d
           \<and> prompt_init (env\<lparr>randn := r, init_weight := w, init_bias := b\<rparr>) kw neck_given
               = Inr d'
           \<and> embeddings d = map (map (to_float env)) arr
           \<and> embeddings d' = embeddings d
           \<and> (embeddings d = arr
                \<longleftrightarrow> list_all (list_all (\<lambda>x. to_float env x = x)) arr)"
proof -
  have e: "init_embeddings env kw = Inr (map (map (to_float env)) arr)"
    using assms by (simp add: init_embeddings_def)
  have e': "init_embeddings (env\<lparr>randn := r, init_weight := w, init_bias := b\<rparr>) kw
              = Inr (map (map (to_float env)) arr)"
    using assms by (simp add: init_embeddings_def)
  show ?thesis
    by (simp add: prompt_init_def e e' map_map_fixed_iff)
qed

text \<open>
  The file of \<open>env_single\<close> holds values that single precision holds: the table of
  the constructed detector is its array.
\<close>

theorem prompt_init_loads_file_witness:
  "0 < length (kw_embedding_path kw_file)
   \<and> np_load env_single (kw_embedding_path kw_file) = Inr [[3, 4], [0, 1]]
   \<and> list_all (list_all (\<lambda>x. to_float env_single x = x)) [[3, 4], [0, 1]]
   \<and> prompt_init env_single kw_file True = Inr det_file
   \<and> embeddings det_file = [[3, 4], [0, 1]]"
proof -
  have p: "0 < length (kw_embedding_path kw_file)" by (simp add: kw_file_def)
  have l: "np_load env_single (kw_embedding_path kw_file) = Inr [[3, 4], [0, 1]]"
    by (simp add: kw_file_def env_single_def env_file_def)
  have f: "list_all (list_all (\<lambda>x. to_float env_single x = x)) [[3, 4], [0, 1]]"
    by (simp add: env_single_def float32_values)
  have i: "prompt_init env_single kw_file True = Inr det_file"
    by (simp add: prompt_init_def init_embeddings_def env_single_def env_file_def kw_file_def
        det_file_def adapter_zero_def nn_Linear_def numeral_eq_Suc float32_values)
  from prompt_init_loads_file [OF p l, of True] f i
  have "embeddings det_file = [[3, 4], [0, 1]]" by auto
  with p l f i show ?thesis by simp
qed

end
